theory Spec2Isabelle
  imports Main
begin

section \<open>The resource model of the CDK application\<close>

text \<open>
  The repository is an AWS CDK application: every stack class is a constructor that maps
  its properties (above all the stage name) to a set of declared cloud resources.  Each
  construct class becomes a record with the properties that the stacks set, each enum a
  datatype, each stack constructor a function from its properties to the record of the
  resources it creates.  A property the source leaves unset is \<open>None\<close> or the empty list.
  Template strings such as \<^verbatim>\<open>`User-${stageName}`\<close> are list concatenations.
  Durations are natural numbers of seconds.
\<close>

type_synonym Duration = nat

definition seconds :: "nat \<Rightarrow> Duration" where
  "seconds n = n"

definition hours :: "nat \<Rightarrow> Duration" where
  "hours n = n * 3600"

definition days :: "nat \<Rightarrow> Duration" where
  "days n = n * 86400"

datatype RemovalPolicy = RETAIN | DESTROY

subsection \<open>DynamoDB\<close>

datatype AttributeType = STRING | NUMBER | BINARY

record Attribute =
  name :: string
  type :: AttributeType

datatype BillingMode = PAY_PER_REQUEST | PROVISIONED

datatype StreamViewType = NEW_IMAGE | OLD_IMAGE | NEW_AND_OLD_IMAGES | KEYS_ONLY

record GlobalSecondaryIndexProps =
  indexName :: string
  partitionKey :: Attribute
  sortKey :: "Attribute option"

record Table =
  tableName :: string
  partitionKey :: Attribute
  billingMode :: BillingMode
  stream :: "StreamViewType option"
  pointInTimeRecovery :: bool
  removalPolicy :: RemovalPolicy
  deletionProtection :: bool
  globalSecondaryIndexes :: "GlobalSecondaryIndexProps list"

definition addGlobalSecondaryIndex :: "Table \<Rightarrow> GlobalSecondaryIndexProps \<Rightarrow> Table" where
  "addGlobalSecondaryIndex t props =
     t\<lparr>globalSecondaryIndexes := globalSecondaryIndexes t @ [props]\<rparr>"

subsection \<open>database-stack.ts\<close>

definition isProd :: "string \<Rightarrow> bool" where
  "isProd stageName = (stageName = ''prod'')"

definition UserTable :: "string \<Rightarrow> Table" where
  "UserTable stageName =
     addGlobalSecondaryIndex
       \<lparr> tableName = ''User-'' @ stageName,
         Table.partitionKey = \<lparr>name = ''userId'', type = STRING\<rparr>,
         billingMode = PAY_PER_REQUEST,
         stream = None,
         pointInTimeRecovery = isProd stageName,
         removalPolicy = (if isProd stageName then RETAIN else DESTROY),
         deletionProtection = isProd stageName,
         globalSecondaryIndexes = [] \<rparr>
       \<lparr> indexName = ''PhoneNumberIndex'',
         GlobalSecondaryIndexProps.partitionKey = \<lparr>name = ''phoneNumber'', type = STRING\<rparr>,
         sortKey = None \<rparr>"

definition FriendshipTable :: "string \<Rightarrow> Table" where
  "FriendshipTable stageName =
     addGlobalSecondaryIndex
      (addGlobalSecondaryIndex
        (addGlobalSecondaryIndex
          \<lparr> tableName = ''Friendship-'' @ stageName,
            Table.partitionKey = \<lparr>name = ''friendshipId'', type = STRING\<rparr>,
            billingMode = PAY_PER_REQUEST,
            stream = None,
            pointInTimeRecovery = isProd stageName,
            removalPolicy = (if isProd stageName then RETAIN else DESTROY),
            deletionProtection = isProd stageName,
            globalSecondaryIndexes = [] \<rparr>
          \<lparr> indexName = ''User1Index'',
            GlobalSecondaryIndexProps.partitionKey = \<lparr>name = ''user1Id'', type = STRING\<rparr>,
            sortKey = Some \<lparr>name = ''status'', type = STRING\<rparr> \<rparr>)
        \<lparr> indexName = ''User2Index'',
          GlobalSecondaryIndexProps.partitionKey = \<lparr>name = ''user2Id'', type = STRING\<rparr>,
          sortKey = Some \<lparr>name = ''status'', type = STRING\<rparr> \<rparr>)
      \<lparr> indexName = ''UserPairIndex'',
        GlobalSecondaryIndexProps.partitionKey = \<lparr>name = ''userPair'', type = STRING\<rparr>,
        sortKey = None \<rparr>"

definition ContentTable :: "string \<Rightarrow> Table" where
  "ContentTable stageName =
     addGlobalSecondaryIndex
      (addGlobalSecondaryIndex
        \<lparr> tableName = ''Content-'' @ stageName,
          Table.partitionKey = \<lparr>name = ''contentId'', type = STRING\<rparr>,
          billingMode = PAY_PER_REQUEST,
          stream = None,
          pointInTimeRecovery = isProd stageName,
          removalPolicy = (if isProd stageName then RETAIN else DESTROY),
          deletionProtection = isProd stageName,
          globalSecondaryIndexes = [] \<rparr>
        \<lparr> indexName = ''OwnerContentIndex'',
          GlobalSecondaryIndexProps.partitionKey = \<lparr>name = ''ownerId'', type = STRING\<rparr>,
          sortKey = Some \<lparr>name = ''createdAt'', type = STRING\<rparr> \<rparr>)
      \<lparr> indexName = ''EventContentIndex'',
        GlobalSecondaryIndexProps.partitionKey = \<lparr>name = ''eventId'', type = STRING\<rparr>,
        sortKey = Some \<lparr>name = ''createdAt'', type = STRING\<rparr> \<rparr>"

definition RecipientEdgeTable :: "string \<Rightarrow> Table" where
  "RecipientEdgeTable stageName =
     addGlobalSecondaryIndex
      (addGlobalSecondaryIndex
        (addGlobalSecondaryIndex
          \<lparr> tableName = ''RecipientEdge-'' @ stageName,
            Table.partitionKey = \<lparr>name = ''edgeId'', type = STRING\<rparr>,
            billingMode = PAY_PER_REQUEST,
            stream = Some NEW_IMAGE,
            pointInTimeRecovery = isProd stageName,
            removalPolicy = (if isProd stageName then RETAIN else DESTROY),
            deletionProtection = isProd stageName,
            globalSecondaryIndexes = [] \<rparr>
          \<lparr> indexName = ''RecipientContentIndex'',
            GlobalSecondaryIndexProps.partitionKey = \<lparr>name = ''recipientUserId'', type = STRING\<rparr>,
            sortKey = Some \<lparr>name = ''createdAt'', type = STRING\<rparr> \<rparr>)
        \<lparr> indexName = ''ContentRecipientsIndex'',
          GlobalSecondaryIndexProps.partitionKey = \<lparr>name = ''contentId'', type = STRING\<rparr>,
          sortKey = Some \<lparr>name = ''recipientUserId'', type = STRING\<rparr> \<rparr>)
      \<lparr> indexName = ''OwnerRecipientIndex'',
        GlobalSecondaryIndexProps.partitionKey = \<lparr>name = ''contentOwnerId'', type = STRING\<rparr>,
        sortKey = Some \<lparr>name = ''recipientUserId'', type = STRING\<rparr> \<rparr>"

definition FeedEntryTable :: "string \<Rightarrow> Table" where
  "FeedEntryTable stageName =
     addGlobalSecondaryIndex
       \<lparr> tableName = ''FeedEntry-'' @ stageName,
         Table.partitionKey = \<lparr>name = ''feedEntryId'', type = STRING\<rparr>,
         billingMode = PAY_PER_REQUEST,
         stream = None,
         pointInTimeRecovery = isProd stageName,
         removalPolicy = (if isProd stageName then RETAIN else DESTROY),
         deletionProtection = isProd stageName,
         globalSecondaryIndexes = [] \<rparr>
       \<lparr> indexName = ''UserFeedIndex'',
         GlobalSecondaryIndexProps.partitionKey = \<lparr>name = ''recipientUserId'', type = STRING\<rparr>,
         sortKey = Some \<lparr>name = ''edgeCreatedAt'', type = STRING\<rparr> \<rparr>"

definition FaceIdentityTable :: "string \<Rightarrow> Table" where
  "FaceIdentityTable stageName =
     addGlobalSecondaryIndex
      (addGlobalSecondaryIndex
        \<lparr> tableName = ''FaceIdentity-'' @ stageName,
          Table.partitionKey = \<lparr>name = ''faceIdentityId'', type = STRING\<rparr>,
          billingMode = PAY_PER_REQUEST,
          stream = None,
          pointInTimeRecovery = isProd stageName,
          removalPolicy = (if isProd stageName then RETAIN else DESTROY),
          deletionProtection = isProd stageName,
          globalSecondaryIndexes = [] \<rparr>
        \<lparr> indexName = ''OwnerUnknownFacesIndex'',
          GlobalSecondaryIndexProps.partitionKey = \<lparr>name = ''ownerId'', type = STRING\<rparr>,
          sortKey = Some \<lparr>name = ''status'', type = STRING\<rparr> \<rparr>)
      \<lparr> indexName = ''FaceIdIndex'',
        GlobalSecondaryIndexProps.partitionKey = \<lparr>name = ''faceId'', type = STRING\<rparr>,
        sortKey = None \<rparr>"

definition ContentFaceTable :: "string \<Rightarrow> Table" where
  "ContentFaceTable stageName =
     addGlobalSecondaryIndex
      (addGlobalSecondaryIndex
        \<lparr> tableName = ''ContentFace-'' @ stageName,
          Table.partitionKey = \<lparr>name = ''contentFaceId'', type = STRING\<rparr>,
          billingMode = PAY_PER_REQUEST,
          stream = None,
          pointInTimeRecovery = isProd stageName,
          removalPolicy = (if isProd stageName then RETAIN else DESTROY),
          deletionProtection = isProd stageName,
          globalSecondaryIndexes = [] \<rparr>
        \<lparr> indexName = ''ContentFacesIndex'',
          GlobalSecondaryIndexProps.partitionKey = \<lparr>name = ''contentId'', type = STRING\<rparr>,
          sortKey = Some \<lparr>name = ''faceIdentityId'', type = STRING\<rparr> \<rparr>)
      \<lparr> indexName = ''FaceIdentityContentIndex'',
        GlobalSecondaryIndexProps.partitionKey = \<lparr>name = ''faceIdentityId'', type = STRING\<rparr>,
        sortKey = Some \<lparr>name = ''contentId'', type = STRING\<rparr> \<rparr>"

definition EventTable :: "string \<Rightarrow> Table" where
  "EventTable stageName =
     addGlobalSecondaryIndex
       \<lparr> tableName = ''Phomo-Event-'' @ stageName,
         Table.partitionKey = \<lparr>name = ''eventId'', type = STRING\<rparr>,
         billingMode = PAY_PER_REQUEST,
         stream = None,
         pointInTimeRecovery = isProd stageName,
         removalPolicy = (if isProd stageName then RETAIN else DESTROY),
         deletionProtection = isProd stageName,
         globalSecondaryIndexes = [] \<rparr>
       \<lparr> indexName = ''OwnerEventsIndex'',
         GlobalSecondaryIndexProps.partitionKey = \<lparr>name = ''ownerId'', type = STRING\<rparr>,
         sortKey = Some \<lparr>name = ''createdAt'', type = STRING\<rparr> \<rparr>"

definition EventMemberTable :: "string \<Rightarrow> Table" where
  "EventMemberTable stageName =
     addGlobalSecondaryIndex
      (addGlobalSecondaryIndex
        \<lparr> tableName = ''Phomo-EventMember-'' @ stageName,
          Table.partitionKey = \<lparr>name = ''eventMemberId'', type = STRING\<rparr>,
          billingMode = PAY_PER_REQUEST,
          stream = None,
          pointInTimeRecovery = isProd stageName,
          removalPolicy = (if isProd stageName then RETAIN else DESTROY),
          deletionProtection = isProd stageName,
          globalSecondaryIndexes = [] \<rparr>
        \<lparr> indexName = ''UserEventsIndex'',
          GlobalSecondaryIndexProps.partitionKey = \<lparr>name = ''userId'', type = STRING\<rparr>,
          sortKey = Some \<lparr>name = ''joinedAt'', type = STRING\<rparr> \<rparr>)
      \<lparr> indexName = ''EventMembersIndex'',
        GlobalSecondaryIndexProps.partitionKey = \<lparr>name = ''eventId'', type = STRING\<rparr>,
        sortKey = Some \<lparr>name = ''userId'', type = STRING\<rparr> \<rparr>"

record DatabaseStack =
  userTable :: Table
  friendshipTable :: Table
  contentTable :: Table
  recipientEdgeTable :: Table
  feedEntryTable :: Table
  faceIdentityTable :: Table
  contentFaceTable :: Table
  eventTable :: Table
  eventMemberTable :: Table

definition DatabaseStack :: "string \<Rightarrow> DatabaseStack" where
  "DatabaseStack stageName =
     \<lparr> userTable = UserTable stageName,
       friendshipTable = FriendshipTable stageName,
       contentTable = ContentTable stageName,
       recipientEdgeTable = RecipientEdgeTable stageName,
       feedEntryTable = FeedEntryTable stageName,
       faceIdentityTable = FaceIdentityTable stageName,
       contentFaceTable = ContentFaceTable stageName,
       eventTable = EventTable stageName,
       eventMemberTable = EventMemberTable stageName \<rparr>"

definition tables :: "DatabaseStack \<Rightarrow> Table list" where
  "tables db =
     [userTable db, friendshipTable db, contentTable db, recipientEdgeTable db,
      feedEntryTable db, faceIdentityTable db, contentFaceTable db, eventTable db,
      eventMemberTable db]"

subsection \<open>S3, IAM and Cognito\<close>

text \<open>
  Of the bucket and the user pool the model keeps the properties that decide security,
  notification and deletion behaviour; CORS rules, lifecycle rules, sign-in and password
  settings and the user-pool client's OAuth settings are left out.
\<close>

datatype BucketEncryption = S3_MANAGED | KMS_MANAGED | UNENCRYPTED

datatype BlockPublicAccess = BLOCK_ALL | BLOCK_ACLS

record Bucket =
  bucketName :: string
  encryption :: BucketEncryption
  blockPublicAccess :: BlockPublicAccess
  enforceSSL :: bool
  versioned :: bool
  eventBridgeEnabled :: bool
  removalPolicy :: RemovalPolicy
  autoDeleteObjects :: bool

definition bucketArn :: "Bucket \<Rightarrow> string" where
  "bucketArn b = ''arn:aws:s3:::'' @ bucketName b"

datatype Effect = ALLOW | DENY

text \<open>A condition block \<^verbatim>\<open>{ op: { key: values } }\<close> is the triple \<open>(op, key, values)\<close>.\<close>

type_synonym Condition = "string \<times> string \<times> string list"

record PolicyStatement =
  effect :: Effect
  actions :: "string list"
  resources :: "string list"
  conditions :: "Condition list"

record CfnIdentityPool =
  identityPoolName :: string
  allowUnauthenticatedIdentities :: bool

record FederatedPrincipal =
  federated :: string
  aud :: CfnIdentityPool
  amr :: string
  assumeRoleAction :: string

record Role =
  assumedBy :: FederatedPrincipal
  description :: string
  policy :: "PolicyStatement list"

definition addToPolicy :: "Role \<Rightarrow> PolicyStatement \<Rightarrow> Role" where
  "addToPolicy r st = r\<lparr>policy := policy r @ [st]\<rparr>"

record CfnIdentityPoolRoleAttachment =
  identityPoolId :: CfnIdentityPool
  authenticated :: Role

record UserPool =
  userPoolName :: string
  selfSignUpEnabled :: bool
  deletionProtection :: bool
  removalPolicy :: RemovalPolicy

subsection \<open>auth-stack.ts\<close>

record AuthStack =
  userPool :: UserPool
  identityPool :: CfnIdentityPool

definition AuthStack :: "string \<Rightarrow> AuthStack" where
  "AuthStack stageName =
     \<lparr> userPool =
         \<lparr> userPoolName = ''Phomo-UserPool-'' @ stageName,
           selfSignUpEnabled = True,
           UserPool.deletionProtection = (stageName = ''prod''),
           UserPool.removalPolicy = (if stageName = ''prod'' then RETAIN else DESTROY) \<rparr>,
       identityPool =
         \<lparr> identityPoolName = ''Phomo_IdentityPool_'' @ stageName,
           allowUnauthenticatedIdentities = False \<rparr> \<rparr>"

subsection \<open>storage-stack.ts\<close>

definition PhotoBucket :: "string \<Rightarrow> Bucket" where
  "PhotoBucket stageName =
     \<lparr> bucketName = ''phomov2-photos-'' @ stageName,
       encryption = S3_MANAGED,
       blockPublicAccess = BLOCK_ALL,
       enforceSSL = True,
       versioned = False,
       eventBridgeEnabled = True,
       Bucket.removalPolicy = (if stageName = ''prod'' then RETAIN else DESTROY),
       autoDeleteObjects = (stageName \<noteq> ''prod'') \<rparr>"

text \<open>The policy variable that IAM replaces by the Cognito identity of the caller.\<close>

definition subVariable :: string where
  "subVariable = ''${cognito-identity.amazonaws.com:sub}''"

definition AuthenticatedRole :: "string \<Rightarrow> CfnIdentityPool \<Rightarrow> Bucket \<Rightarrow> Role" where
  "AuthenticatedRole stageName pool photoBucket =
     addToPolicy
      (addToPolicy
        (addToPolicy
          (addToPolicy
            (addToPolicy
              \<lparr> assumedBy =
                  \<lparr> federated = ''cognito-identity.amazonaws.com'',
                    aud = pool,
                    amr = ''authenticated'',
                    assumeRoleAction = ''sts:AssumeRoleWithWebIdentity'' \<rparr>,
                description =
                  ''Authenticated role for Phomo '' @ stageName @ '' - S3 photo access'',
                policy = [] \<rparr>
              \<lparr> effect = ALLOW,
                actions = [''s3:PutObject'', ''s3:PutObjectAcl''],
                resources =
                  [bucketArn photoBucket @ ''/photos/'' @ subVariable @ ''/*'',
                   bucketArn photoBucket @ ''/faces/'' @ subVariable @ ''/*''],
                conditions = [] \<rparr>)
            \<lparr> effect = ALLOW,
              actions = [''s3:GetObject''],
              resources =
                [bucketArn photoBucket @ ''/photos/'' @ subVariable @ ''/*'',
                 bucketArn photoBucket @ ''/faces/'' @ subVariable @ ''/*''],
              conditions = [] \<rparr>)
          \<lparr> effect = ALLOW,
            actions = [''s3:GetObject''],
            resources =
              [bucketArn photoBucket @ ''/photos/*/*'',
               bucketArn photoBucket @ ''/faces/*/*''],
            conditions = [] \<rparr>)
        \<lparr> effect = ALLOW,
          actions = [''s3:DeleteObject''],
          resources =
            [bucketArn photoBucket @ ''/photos/'' @ subVariable @ ''/*'',
             bucketArn photoBucket @ ''/faces/'' @ subVariable @ ''/*''],
          conditions = [] \<rparr>)
      \<lparr> effect = ALLOW,
        actions = [''s3:ListBucket''],
        resources = [bucketArn photoBucket],
        conditions =
          [(''StringLike'', ''s3:prefix'',
            [''photos/'' @ subVariable @ ''/*'', ''faces/'' @ subVariable @ ''/*''])] \<rparr>"

record StorageStack =
  photoBucket :: Bucket
  authenticatedRole :: Role
  identityPoolRoleAttachment :: CfnIdentityPoolRoleAttachment

definition StorageStack :: "string \<Rightarrow> CfnIdentityPool \<Rightarrow> StorageStack" where
  "StorageStack stageName pool =
     (let bucket = PhotoBucket stageName;
          role = AuthenticatedRole stageName pool bucket
      in \<lparr> photoBucket = bucket,
           authenticatedRole = role,
           identityPoolRoleAttachment =
             \<lparr> identityPoolId = pool, authenticated = role \<rparr> \<rparr>)"

subsection \<open>rekognition-stack.ts\<close>

text \<open>
  The face collection is a CloudFormation resource.  Its deletion policy is the one that
  \<^verbatim>\<open>applyRemovalPolicy\<close> would set; the stack never calls it.
\<close>

record CfnCollection =
  collectionId :: string
  tags :: "(string \<times> string) list"
  deletionPolicy :: "RemovalPolicy option"

definition FaceCollection :: "string \<Rightarrow> CfnCollection" where
  "FaceCollection stageName =
     \<lparr> collectionId = ''phomo-faces-'' @ stageName,
       tags =
         [(''Name'', ''Phomo Face Collection - '' @ stageName),
          (''Environment'', stageName),
          (''Application'', ''Phomo'')],
       deletionPolicy = None \<rparr>"

record RekognitionStack =
  faceCollection :: CfnCollection
  collectionId :: string

definition RekognitionStack :: "string \<Rightarrow> RekognitionStack" where
  "RekognitionStack stageName =
     \<lparr> faceCollection = FaceCollection stageName,
       RekognitionStack.collectionId = ''phomo-faces-'' @ stageName \<rparr>"

subsection \<open>SQS, Lambda and EventBridge\<close>

datatype Queue =
  Queue (queueName: string) (visibilityTimeout: "Duration option")
        (retentionPeriod: "Duration option") (deadLetterQueue: "DeadLetterQueue option")
and DeadLetterQueue =
  DeadLetterQueue (queue: Queue) (maxReceiveCount: nat)

datatype StartingPosition = TRIM_HORIZON | LATEST

record DynamoEventSourceProps =
  startingPosition :: StartingPosition
  batchSize :: nat
  bisectBatchOnError :: bool
  retryAttempts :: nat
  onFailure :: "Queue option"

record SqsEventSourceProps =
  batchSize :: nat
  maxBatchingWindow :: Duration

datatype EventSource =
  DynamoEventSource Table DynamoEventSourceProps
| SqsEventSource Queue SqsEventSourceProps

text \<open>
  A grant method of a resource (\<^verbatim>\<open>table.grantReadData(fn)\<close>,
  \<^verbatim>\<open>fn.grantInvoke(other)\<close>, \<^verbatim>\<open>fn.addToRolePolicy(stmt)\<close>) adds a permission to the
  execution role of the function it is given; the model records it in the grantee.  An
  invoke grant names the function that may be invoked.
\<close>

datatype Grant =
  GrantReadData Table
| GrantWriteData Table
| GrantReadWriteData Table
| GrantRead Bucket
| GrantInvoke string
| RolePolicyStatement PolicyStatement

datatype Runtime = NODEJS_20_X

record Function =
  functionName :: string
  entry :: string
  handler :: string
  runtime :: Runtime
  timeout :: Duration
  memorySize :: nat
  environment :: "(string \<times> string) list"
  eventSources :: "EventSource list"
  rolePolicy :: "Grant list"

definition addEventSource :: "Function \<Rightarrow> EventSource \<Rightarrow> Function" where
  "addEventSource f es = f\<lparr>eventSources := eventSources f @ [es]\<rparr>"

definition grant :: "Grant \<Rightarrow> Function \<Rightarrow> Function" where
  "grant g f = f\<lparr>rolePolicy := rolePolicy f @ [g]\<rparr>"

definition grantReadData :: "Table \<Rightarrow> Function \<Rightarrow> Function" where
  "grantReadData t = grant (GrantReadData t)"

definition grantWriteData :: "Table \<Rightarrow> Function \<Rightarrow> Function" where
  "grantWriteData t = grant (GrantWriteData t)"

definition grantReadWriteData :: "Table \<Rightarrow> Function \<Rightarrow> Function" where
  "grantReadWriteData t = grant (GrantReadWriteData t)"

definition grantRead :: "Bucket \<Rightarrow> Function \<Rightarrow> Function" where
  "grantRead b = grant (GrantRead b)"

definition grantInvoke :: "Function \<Rightarrow> Function \<Rightarrow> Function" where
  "grantInvoke callee = grant (GrantInvoke (functionName callee))"

definition addToRolePolicy :: "PolicyStatement \<Rightarrow> Function \<Rightarrow> Function" where
  "addToRolePolicy st = grant (RolePolicyStatement st)"

text \<open>A matcher of an event-pattern field: \<^verbatim>\<open>{ prefix: p }\<close> or a literal value.\<close>

datatype Matcher = prefix string | exact string

record DetailPattern =
  bucket_name :: "string list"
  object_key :: "Matcher list"

record EventPattern =
  source :: "string list"
  detailType :: "string list"
  detail :: DetailPattern

datatype RuleTarget = SqsQueue Queue | LambdaFunction string

record Rule =
  ruleName :: string
  eventPattern :: "EventPattern option"
  schedule :: "Duration option"
  targets :: "RuleTarget list"

definition addTarget :: "Rule \<Rightarrow> RuleTarget \<Rightarrow> Rule" where
  "addTarget r t = r\<lparr>targets := targets r @ [t]\<rparr>"

subsection \<open>face-processing-stack.ts\<close>

definition PhotoProcessingDLQ :: "string \<Rightarrow> Queue" where
  "PhotoProcessingDLQ stageName =
     Queue (''phomo-photo-processing-dlq-'' @ stageName) None (Some (days 14)) None"

definition PhotoProcessingQueue :: "string \<Rightarrow> Queue" where
  "PhotoProcessingQueue stageName =
     Queue (''phomo-photo-processing-'' @ stageName) (Some (seconds 30)) (Some (days 4))
       (Some (DeadLetterQueue (PhotoProcessingDLQ stageName) 3))"

definition faceSharedEnvironment ::
  "string \<Rightarrow> Bucket \<Rightarrow> string \<Rightarrow> DatabaseStack \<Rightarrow> (string \<times> string) list" where
  "faceSharedEnvironment stageName bucket collection db =
     [(''STAGE_NAME'', stageName),
      (''REKOGNITION_COLLECTION_ID'', collection),
      (''PHOTO_BUCKET_NAME'', bucketName bucket),
      (''USER_TABLE_NAME'', tableName (userTable db)),
      (''FRIENDSHIP_TABLE_NAME'', tableName (friendshipTable db)),
      (''CONTENT_TABLE_NAME'', tableName (contentTable db)),
      (''RECIPIENT_EDGE_TABLE_NAME'', tableName (recipientEdgeTable db)),
      (''FACE_IDENTITY_TABLE_NAME'', tableName (faceIdentityTable db)),
      (''CONTENT_FACE_TABLE_NAME'', tableName (contentFaceTable db)),
      (''EVENT_TABLE_NAME'', tableName (eventTable db))]"

definition rekognitionPolicy :: PolicyStatement where
  "rekognitionPolicy =
     \<lparr> effect = ALLOW,
       actions =
         [''rekognition:IndexFaces'', ''rekognition:SearchUsers'', ''rekognition:SearchFaces'',
          ''rekognition:SearchFacesByImage'', ''rekognition:CreateUser'',
          ''rekognition:AssociateFaces'', ''rekognition:ListFaces'',
          ''rekognition:DetectFaces''],
       resources = [''*''],
       conditions = [] \<rparr>"

definition ProcessContentFacesFunction ::
  "string \<Rightarrow> Bucket \<Rightarrow> string \<Rightarrow> DatabaseStack \<Rightarrow> Function" where
  "ProcessContentFacesFunction stageName bucket collection db =
     (grantReadData (eventTable db)
      \<circ> grantReadWriteData (contentFaceTable db)
      \<circ> grantReadWriteData (faceIdentityTable db)
      \<circ> grantWriteData (recipientEdgeTable db)
      \<circ> grantReadData (contentTable db)
      \<circ> grantReadData (friendshipTable db)
      \<circ> grantReadWriteData (userTable db)
      \<circ> grantRead bucket
      \<circ> addToRolePolicy rekognitionPolicy)
       (addEventSource
         \<lparr> functionName = ''phomo-process-content-faces-'' @ stageName,
           entry = ''../lambdas/src/face-processing/process-content-faces.ts'',
           handler = ''handler'',
           runtime = NODEJS_20_X,
           timeout = seconds 30,
           memorySize = 512,
           environment = faceSharedEnvironment stageName bucket collection db,
           eventSources = [],
           rolePolicy = [] \<rparr>
         (SqsEventSource (PhotoProcessingQueue stageName)
            \<lparr> SqsEventSourceProps.batchSize = 1, maxBatchingWindow = seconds 0 \<rparr>))"

definition EnrollFaceFunction ::
  "string \<Rightarrow> Bucket \<Rightarrow> string \<Rightarrow> DatabaseStack \<Rightarrow> Function" where
  "EnrollFaceFunction stageName bucket collection db =
     (grantReadWriteData (userTable db)
      \<circ> grantRead bucket
      \<circ> addToRolePolicy rekognitionPolicy)
       \<lparr> functionName = ''phomo-enroll-face-'' @ stageName,
         entry = ''../lambdas/src/face-processing/enroll-face.ts'',
         handler = ''handler'',
         runtime = NODEJS_20_X,
         timeout = seconds 30,
         memorySize = 256,
         environment = faceSharedEnvironment stageName bucket collection db,
         eventSources = [],
         rolePolicy = [] \<rparr>"

definition RetroactiveMatchFunction ::
  "string \<Rightarrow> Bucket \<Rightarrow> string \<Rightarrow> DatabaseStack \<Rightarrow> Function" where
  "RetroactiveMatchFunction stageName bucket collection db =
     (grantReadData (contentFaceTable db)
      \<circ> grantReadWriteData (faceIdentityTable db)
      \<circ> grantWriteData (recipientEdgeTable db)
      \<circ> grantReadData (friendshipTable db)
      \<circ> grantReadData (userTable db)
      \<circ> addToRolePolicy rekognitionPolicy)
       \<lparr> functionName = ''phomo-retroactive-match-'' @ stageName,
         entry = ''../lambdas/src/face-processing/retroactive-match.ts'',
         handler = ''handler'',
         runtime = NODEJS_20_X,
         timeout = seconds 60,
         memorySize = 512,
         environment = faceSharedEnvironment stageName bucket collection db,
         eventSources = [],
         rolePolicy = [] \<rparr>"

definition PhotoUploadRule :: "string \<Rightarrow> Bucket \<Rightarrow> Rule" where
  "PhotoUploadRule stageName bucket =
     \<lparr> ruleName = ''phomo-photo-upload-'' @ stageName,
       eventPattern =
         Some \<lparr> source = [''aws.s3''],
                detailType = [''Object Created''],
                detail = \<lparr> bucket_name = [bucketName bucket],
                           object_key = [prefix ''photos/''] \<rparr> \<rparr>,
       schedule = None,
       targets = [SqsQueue (PhotoProcessingQueue stageName)] \<rparr>"

text \<open>
  The record of a stack holds its public members and also the queues and rules that the
  constructor keeps in local constants, since they are resources of the stage all the same.
\<close>

record FaceProcessingStack =
  photoProcessingDLQ :: Queue
  photoProcessingQueue :: Queue
  processContentFacesFunction :: Function
  enrollFaceFunction :: Function
  retroactiveMatchFunction :: Function
  photoUploadRule :: Rule

definition FaceProcessingStack ::
  "string \<Rightarrow> Bucket \<Rightarrow> string \<Rightarrow> DatabaseStack \<Rightarrow> FaceProcessingStack" where
  "FaceProcessingStack stageName bucket collection db =
     \<lparr> photoProcessingDLQ = PhotoProcessingDLQ stageName,
       photoProcessingQueue = PhotoProcessingQueue stageName,
       processContentFacesFunction = ProcessContentFacesFunction stageName bucket collection db,
       enrollFaceFunction = EnrollFaceFunction stageName bucket collection db,
       retroactiveMatchFunction = RetroactiveMatchFunction stageName bucket collection db,
       photoUploadRule = PhotoUploadRule stageName bucket \<rparr>"

subsection \<open>stream-processing-stack.ts\<close>

definition FeedEntrySyncFunction :: "string \<Rightarrow> DatabaseStack \<Rightarrow> Function" where
  "FeedEntrySyncFunction stageName db =
     (grantWriteData (feedEntryTable db)
      \<circ> grantReadData (contentTable db))
       (addEventSource
         \<lparr> functionName = ''phomo-feed-entry-sync-'' @ stageName,
           entry = ''../lambdas/stream-processing/feed-entry-sync.ts'',
           handler = ''handler'',
           runtime = NODEJS_20_X,
           timeout = seconds 10,
           memorySize = 256,
           environment =
             [(''STAGE_NAME'', stageName),
              (''FEED_ENTRY_TABLE_NAME'', tableName (feedEntryTable db)),
              (''CONTENT_TABLE_NAME'', tableName (contentTable db))],
           eventSources = [],
           rolePolicy = [] \<rparr>
         (DynamoEventSource (recipientEdgeTable db)
            \<lparr> startingPosition = TRIM_HORIZON,
              DynamoEventSourceProps.batchSize = 10,
              bisectBatchOnError = True,
              retryAttempts = 3,
              onFailure = None \<rparr>))"

record StreamProcessingStack =
  feedEntrySyncFunction :: Function

definition StreamProcessingStack :: "string \<Rightarrow> DatabaseStack \<Rightarrow> StreamProcessingStack" where
  "StreamProcessingStack stageName db =
     \<lparr> feedEntrySyncFunction = FeedEntrySyncFunction stageName db \<rparr>"

subsection \<open>scheduled-jobs-stack.ts\<close>

definition SendEventRemindersFunction :: "string \<Rightarrow> DatabaseStack \<Rightarrow> Function" where
  "SendEventRemindersFunction stageName db =
     (grantReadData (userTable db)
      \<circ> grantReadData (eventMemberTable db)
      \<circ> grantReadData (eventTable db))
       \<lparr> functionName = ''phomo-send-event-reminders-'' @ stageName,
         entry = ''../lambdas/src/scheduled-jobs/send-event-reminders.ts'',
         handler = ''handler'',
         runtime = NODEJS_20_X,
         timeout = seconds 60,
         memorySize = 256,
         environment =
           [(''STAGE_NAME'', stageName),
            (''EVENT_TABLE_NAME'', tableName (eventTable db)),
            (''EVENT_MEMBER_TABLE_NAME'', tableName (eventMemberTable db)),
            (''USER_TABLE_NAME'', tableName (userTable db))],
         eventSources = [],
         rolePolicy = [] \<rparr>"

definition EventReminderRule :: "string \<Rightarrow> Function \<Rightarrow> Rule" where
  "EventReminderRule stageName f =
     addTarget
       \<lparr> ruleName = ''phomo-event-reminder-'' @ stageName,
         eventPattern = None,
         schedule = Some (hours 1),
         targets = [] \<rparr>
       (LambdaFunction (functionName f))"

record ScheduledJobsStack =
  sendEventRemindersFunction :: Function
  eventReminderRule :: Rule

definition ScheduledJobsStack :: "string \<Rightarrow> DatabaseStack \<Rightarrow> ScheduledJobsStack" where
  "ScheduledJobsStack stageName db =
     (let f = SendEventRemindersFunction stageName db
      in \<lparr> sendEventRemindersFunction = f,
           eventReminderRule = EventReminderRule stageName f \<rparr>)"

subsection \<open>api-stack.ts\<close>

datatype DataSource =
  DynamoDbDataSource string Table
| LambdaDataSource string string

record Resolver =
  typeName :: string
  fieldName :: string
  dataSource :: string

text \<open>
  The stack registers data sources on the API and creates no resolver: the resolvers for
  the simple operations are listed in a TODO comment only.
\<close>

record GraphqlApi =
  name :: string
  xrayEnabled :: bool
  dataSources :: "DataSource list"
  resolvers :: "Resolver list"

definition apiSharedEnvironment ::
  "string \<Rightarrow> Bucket \<Rightarrow> string \<Rightarrow> DatabaseStack \<Rightarrow> (string \<times> string) list" where
  "apiSharedEnvironment stageName bucket collection db =
     [(''STAGE_NAME'', stageName),
      (''PHOTO_BUCKET_NAME'', bucketName bucket),
      (''REKOGNITION_COLLECTION_ID'', collection),
      (''USER_TABLE_NAME'', tableName (userTable db)),
      (''FRIENDSHIP_TABLE_NAME'', tableName (friendshipTable db)),
      (''CONTENT_TABLE_NAME'', tableName (contentTable db)),
      (''RECIPIENT_EDGE_TABLE_NAME'', tableName (recipientEdgeTable db)),
      (''FEED_ENTRY_TABLE_NAME'', tableName (feedEntryTable db)),
      (''FACE_IDENTITY_TABLE_NAME'', tableName (faceIdentityTable db)),
      (''CONTENT_FACE_TABLE_NAME'', tableName (contentFaceTable db)),
      (''EVENT_TABLE_NAME'', tableName (eventTable db)),
      (''EVENT_MEMBER_TABLE_NAME'', tableName (eventMemberTable db))]"

definition AcceptFriendshipFunction ::
  "string \<Rightarrow> Bucket \<Rightarrow> string \<Rightarrow> DatabaseStack \<Rightarrow> FaceProcessingStack \<Rightarrow> Function" where
  "AcceptFriendshipFunction stageName bucket collection db fp =
     (grantInvoke (retroactiveMatchFunction fp)
      \<circ> grantReadData (userTable db)
      \<circ> grantReadWriteData (friendshipTable db))
       \<lparr> functionName = ''phomo-accept-friendship-'' @ stageName,
         entry = ''../lambdas/api-resolvers/accept-friendship.ts'',
         handler = ''handler'',
         runtime = NODEJS_20_X,
         timeout = seconds 90,
         memorySize = 512,
         environment = apiSharedEnvironment stageName bucket collection db,
         eventSources = [],
         rolePolicy = [] \<rparr>"

definition GetContentUrlFunction ::
  "string \<Rightarrow> Bucket \<Rightarrow> string \<Rightarrow> DatabaseStack \<Rightarrow> Function" where
  "GetContentUrlFunction stageName bucket collection db =
     (grantRead bucket
      \<circ> grantReadData (contentTable db))
       \<lparr> functionName = ''phomo-get-content-url-'' @ stageName,
         entry = ''../lambdas/api-resolvers/get-content-url.ts'',
         handler = ''handler'',
         runtime = NODEJS_20_X,
         timeout = seconds 10,
         memorySize = 256,
         environment = apiSharedEnvironment stageName bucket collection db,
         eventSources = [],
         rolePolicy = [] \<rparr>"

definition FindFriendsByPhoneFunction ::
  "string \<Rightarrow> Bucket \<Rightarrow> string \<Rightarrow> DatabaseStack \<Rightarrow> Function" where
  "FindFriendsByPhoneFunction stageName bucket collection db =
     grantReadData (userTable db)
       \<lparr> functionName = ''phomo-find-friends-by-phone-'' @ stageName,
         entry = ''../lambdas/api-resolvers/find-friends-by-phone.ts'',
         handler = ''handler'',
         runtime = NODEJS_20_X,
         timeout = seconds 30,
         memorySize = 256,
         environment = apiSharedEnvironment stageName bucket collection db,
         eventSources = [],
         rolePolicy = [] \<rparr>"

definition PhomoApi ::
  "string \<Rightarrow> DatabaseStack \<Rightarrow> Function \<Rightarrow> Function \<Rightarrow> Function \<Rightarrow> Function \<Rightarrow> GraphqlApi" where
  "PhomoApi stageName db acceptFriendship getContentUrl findFriendsByPhone enrollFace =
     \<lparr> GraphqlApi.name = ''Phomo-API-'' @ stageName,
       xrayEnabled = True,
       dataSources =
         [DynamoDbDataSource ''UserTableDataSource'' (userTable db),
          DynamoDbDataSource ''FriendshipTableDataSource'' (friendshipTable db),
          DynamoDbDataSource ''ContentTableDataSource'' (contentTable db),
          DynamoDbDataSource ''FeedEntryTableDataSource'' (feedEntryTable db),
          DynamoDbDataSource ''EventTableDataSource'' (eventTable db),
          DynamoDbDataSource ''EventMemberTableDataSource'' (eventMemberTable db),
          LambdaDataSource ''AcceptFriendshipDataSource'' (functionName acceptFriendship),
          LambdaDataSource ''GetContentUrlDataSource'' (functionName getContentUrl),
          LambdaDataSource ''FindFriendsByPhoneDataSource'' (functionName findFriendsByPhone),
          LambdaDataSource ''EnrollFaceDataSource'' (functionName enrollFace)],
       resolvers = [] \<rparr>"

record ApiStack =
  api :: GraphqlApi
  acceptFriendshipFunction :: Function
  getContentUrlFunction :: Function
  findFriendsByPhoneFunction :: Function

definition ApiStack ::
  "string \<Rightarrow> Bucket \<Rightarrow> string \<Rightarrow> DatabaseStack \<Rightarrow> FaceProcessingStack \<Rightarrow> ApiStack" where
  "ApiStack stageName bucket collection db fp =
     (let acceptFriendship = AcceptFriendshipFunction stageName bucket collection db fp;
          getContentUrl = GetContentUrlFunction stageName bucket collection db;
          findFriendsByPhone = FindFriendsByPhoneFunction stageName bucket collection db
      in \<lparr> api = PhomoApi stageName db acceptFriendship getContentUrl findFriendsByPhone
                   (enrollFaceFunction fp),
           acceptFriendshipFunction = acceptFriendship,
           getContentUrlFunction = getContentUrl,
           findFriendsByPhoneFunction = findFriendsByPhone \<rparr>)"

subsection \<open>phomo-stage.ts\<close>

text \<open>
  The stage as it composes all eight stacks: authentication, storage, database and
  Rekognition first, then the stacks that build on them.
\<close>

record PhomoStage =
  authStack :: AuthStack
  storageStack :: StorageStack
  databaseStack :: DatabaseStack
  rekognitionStack :: RekognitionStack
  faceProcessingStack :: FaceProcessingStack
  streamProcessingStack :: StreamProcessingStack
  scheduledJobsStack :: ScheduledJobsStack
  apiStack :: ApiStack

definition PhomoStage :: "string \<Rightarrow> PhomoStage" where
  "PhomoStage stageName =
     (let auth = AuthStack stageName;
          storage = StorageStack stageName (identityPool auth);
          database = DatabaseStack stageName;
          rekognition = RekognitionStack stageName;
          faceProcessing =
            FaceProcessingStack stageName (photoBucket storage) (RekognitionStack.collectionId rekognition)
              database;
          streamProcessing = StreamProcessingStack stageName database;
          scheduledJobs = ScheduledJobsStack stageName database;
          api =
            ApiStack stageName (photoBucket storage) (RekognitionStack.collectionId rekognition) database
              faceProcessing
      in \<lparr> authStack = auth,
           storageStack = storage,
           databaseStack = database,
           rekognitionStack = rekognition,
           faceProcessingStack = faceProcessing,
           streamProcessingStack = streamProcessing,
           scheduledJobsStack = scheduledJobs,
           apiStack = api \<rparr>)"

text \<open>The Lambda functions and the EventBridge rules of a stage, over all its stacks.\<close>

definition stageFunctions :: "PhomoStage \<Rightarrow> Function list" where
  "stageFunctions stage =
     [processContentFacesFunction (faceProcessingStack stage),
      enrollFaceFunction (faceProcessingStack stage),
      retroactiveMatchFunction (faceProcessingStack stage),
      feedEntrySyncFunction (streamProcessingStack stage),
      sendEventRemindersFunction (scheduledJobsStack stage),
      acceptFriendshipFunction (apiStack stage),
      getContentUrlFunction (apiStack stage),
      findFriendsByPhoneFunction (apiStack stage)]"

definition stageRules :: "PhomoStage \<Rightarrow> Rule list" where
  "stageRules stage =
     [photoUploadRule (faceProcessingStack stage),
      eventReminderRule (scheduledJobsStack stage)]"

text \<open>config/stages.ts: the stages that the pipeline deploys.\<close>

definition stages :: "string list" where
  "stages = [''dev'', ''staging'', ''prod'']"

section \<open>What the declared resources do\<close>

text \<open>
  The stacks only declare resources; what a declaration means is fixed by the services.
  This section writes down the part of that meaning the properties below rest on, as
  executable functions over the declared records: which items a table stores, which
  events a rule forwards, how a queue redelivers, how a stream batch is retried, and
  which requests a role allows.
\<close>

subsection \<open>Tables and items\<close>

datatype AttributeValue = S string | N int | B string

fun valueType :: "AttributeValue \<Rightarrow> AttributeType" where
  "valueType (S v) = STRING"
| "valueType (N v) = NUMBER"
| "valueType (B v) = BINARY"

text \<open>An item is a list of attribute names with their values.\<close>

type_synonym Item = "(string \<times> AttributeValue) list"

text \<open>
  The limits of the service that hold for every item, whatever the table.  A number has
  at most 38 significant digits and a magnitude of at most 9.99...E+125; the numbers of
  the model are the integers among them.  An attribute name is not empty and has at most
  65535 bytes.  An item has at most 400 KB, names and values together.  The size is
  taken on the safe side: a number counts with the 21 bytes that it takes at most, and
  the limit is 400000 bytes.  So \<open>wellFormed\<close> is sufficient for an item to pass these
  limits, and the properties below speak about well-formed items only.
\<close>

definition validNumber :: "int \<Rightarrow> bool" where
  "validNumber n = (\<exists>e \<in> {0 .. 88 :: nat}. \<bar>n\<bar> mod 10 ^ e = 0 \<and> \<bar>n\<bar> div 10 ^ e < 10 ^ 38)"

fun validValue :: "AttributeValue \<Rightarrow> bool" where
  "validValue (S v) = True"
| "validValue (N n) = validNumber n"
| "validValue (B v) = True"

fun valueSize :: "AttributeValue \<Rightarrow> nat" where
  "valueSize (S v) = length v"
| "valueSize (N n) = 21"
| "valueSize (B v) = length v"

definition itemSize :: "Item \<Rightarrow> nat" where
  "itemSize item = sum_list (map (\<lambda>av. length (fst av) + valueSize (snd av)) item)"

definition wellFormed :: "Item \<Rightarrow> bool" where
  "wellFormed item =
     (distinct (map fst item)
      \<and> list_all (\<lambda>av. fst av \<noteq> [] \<and> length (fst av) \<le> 65535 \<and> validValue (snd av)) item
      \<and> itemSize item \<le> 400000)"

text \<open>
  The value of a key attribute, of the table or of an index, has the declared type; a
  string or a binary value is not empty and has at most 2048 bytes as a partition key
  and at most 1024 bytes as a sort key.
\<close>

definition maxPartitionKeyBytes :: nat where
  "maxPartitionKeyBytes = 2048"

definition maxSortKeyBytes :: nat where
  "maxSortKeyBytes = 1024"

fun keyBytesOk :: "nat \<Rightarrow> AttributeValue \<Rightarrow> bool" where
  "keyBytesOk limit (S v) = (v \<noteq> [] \<and> length v \<le> limit)"
| "keyBytesOk limit (N n) = True"
| "keyBytesOk limit (B v) = (v \<noteq> [] \<and> length v \<le> limit)"

definition keyValueOk :: "nat \<Rightarrow> Attribute \<Rightarrow> AttributeValue \<Rightarrow> bool" where
  "keyValueOk limit a v = (valueType v = type a \<and> keyBytesOk limit v)"

text \<open>A key of the table must be present.\<close>

definition hasKey :: "nat \<Rightarrow> Attribute \<Rightarrow> Item \<Rightarrow> bool" where
  "hasKey limit a item =
     (case map_of item (Attribute.name a) of
        None \<Rightarrow> False
      | Some v \<Rightarrow> keyValueOk limit a v)"

text \<open>A key of an index may be absent: the item is then not in the index.\<close>

definition indexKeyOk :: "nat \<Rightarrow> Attribute \<Rightarrow> Item \<Rightarrow> bool" where
  "indexKeyOk limit a item =
     (case map_of item (Attribute.name a) of
        None \<Rightarrow> True
      | Some v \<Rightarrow> keyValueOk limit a v)"

definition indexKeys :: "GlobalSecondaryIndexProps \<Rightarrow> Attribute list" where
  "indexKeys i =
     GlobalSecondaryIndexProps.partitionKey i
       # (case sortKey i of None \<Rightarrow> [] | Some a \<Rightarrow> [a])"

text \<open>
  The attribute definitions of a table, in the order in which the construct registers
  them: the key of the table, then the keys of each index as it is added.  An attribute
  that is registered already is not registered again, and registering a name again with
  another type is an error.
\<close>

fun registerAttribute :: "Attribute list option \<Rightarrow> Attribute \<Rightarrow> Attribute list option" where
  "registerAttribute None a = None"
| "registerAttribute (Some defs) a =
     (case find (\<lambda>d. Attribute.name d = Attribute.name a) defs of
        None \<Rightarrow> Some (defs @ [a])
      | Some d \<Rightarrow> if type d = type a then Some defs else None)"

definition attributeDefinitions :: "Table \<Rightarrow> Attribute list option" where
  "attributeDefinitions t =
     foldl registerAttribute (Some [])
       (Table.partitionKey t # concat (map indexKeys (globalSecondaryIndexes t)))"

definition indexAccepts :: "GlobalSecondaryIndexProps \<Rightarrow> Item \<Rightarrow> bool" where
  "indexAccepts i item =
     (indexKeyOk maxPartitionKeyBytes (GlobalSecondaryIndexProps.partitionKey i) item
      \<and> (case sortKey i of
           None \<Rightarrow> True
         | Some a \<Rightarrow> indexKeyOk maxSortKeyBytes a item))"

definition accepts :: "Table \<Rightarrow> Item \<Rightarrow> bool" where
  "accepts t item =
     (wellFormed item
      \<and> hasKey maxPartitionKeyBytes (Table.partitionKey t) item
      \<and> list_all (\<lambda>i. indexAccepts i item) (globalSecondaryIndexes t))"

definition primaryKey :: "Table \<Rightarrow> Item \<Rightarrow> AttributeValue option" where
  "primaryKey t item = map_of item (Attribute.name (Table.partitionKey t))"

text \<open>
  Putting an item replaces the stored item with the same primary key, if there is one,
  and leaves every other item in place; an item the table does not accept is rejected.
\<close>

definition putItem :: "Table \<Rightarrow> Item \<Rightarrow> Item list \<Rightarrow> Item list option" where
  "putItem t item store =
     (if accepts t item
      then Some (item # filter (\<lambda>old. primaryKey t old \<noteq> primaryKey t item) store)
      else None)"

text \<open>
  A resource outlives the removal of its stack only when its removal policy is \<open>RETAIN\<close>;
  a resource without a removal policy is deleted with the stack.
\<close>

definition retained :: "RemovalPolicy option \<Rightarrow> bool" where
  "retained p = (p = Some RETAIN)"

subsection \<open>Events and rules\<close>

text \<open>
  A bucket with \<open>eventBridgeEnabled\<close> sends every object event to EventBridge with
  source \<^verbatim>\<open>aws.s3\<close>; the event names its kind, the bucket and the object key.
\<close>

record ObjectEvent =
  eventSource :: string
  eventDetailType :: string
  eventBucket :: string
  eventKey :: string

definition emits :: "Bucket \<Rightarrow> string \<Rightarrow> string \<Rightarrow> ObjectEvent option" where
  "emits b kind key =
     (if eventBridgeEnabled b
      then Some \<lparr> eventSource = ''aws.s3'', eventDetailType = kind,
                  eventBucket = bucketName b, eventKey = key \<rparr>
      else None)"

fun matches :: "Matcher \<Rightarrow> string \<Rightarrow> bool" where
  "matches (prefix p) v = (take (length p) v = p)"
| "matches (exact p) v = (v = p)"

definition matchesPattern :: "EventPattern \<Rightarrow> ObjectEvent \<Rightarrow> bool" where
  "matchesPattern p e =
     (eventSource e \<in> set (source p)
      \<and> eventDetailType e \<in> set (detailType p)
      \<and> eventBucket e \<in> set (bucket_name (detail p))
      \<and> list_ex (\<lambda>m. matches m (eventKey e)) (object_key (detail p)))"

definition ruleFires :: "Rule \<Rightarrow> ObjectEvent \<Rightarrow> bool" where
  "ruleFires r e = (case eventPattern r of None \<Rightarrow> False | Some p \<Rightarrow> matchesPattern p e)"

definition firedTargets :: "PhomoStage \<Rightarrow> ObjectEvent \<Rightarrow> RuleTarget list" where
  "firedTargets stage e = concat (map targets (filter (\<lambda>r. ruleFires r e) (stageRules stage)))"

fun pollsQueue :: "Queue \<Rightarrow> EventSource \<Rightarrow> bool" where
  "pollsQueue q (SqsEventSource q' props) = (q' = q)"
| "pollsQueue q (DynamoEventSource t props) = False"

fun startedBy :: "RuleTarget \<Rightarrow> Function \<Rightarrow> bool" where
  "startedBy (SqsQueue q) f = list_ex (pollsQueue q) (eventSources f)"
| "startedBy (LambdaFunction n) f = (functionName f = n)"

text \<open>The functions of the stage that an object event of the photo bucket starts.\<close>

definition started :: "PhomoStage \<Rightarrow> string \<Rightarrow> string \<Rightarrow> string list" where
  "started stage kind key =
     (case emits (photoBucket (storageStack stage)) kind key of
        None \<Rightarrow> []
      | Some e \<Rightarrow>
          map functionName
            (filter (\<lambda>f. list_ex (\<lambda>t. startedBy t f) (firedTargets stage e))
               (stageFunctions stage)))"

subsection \<open>Triggers of a function\<close>

fun readsStream :: "Table \<Rightarrow> EventSource \<Rightarrow> bool" where
  "readsStream t (DynamoEventSource t' props) = (t' = t)"
| "readsStream t (SqsEventSource q props) = False"

definition streamConsumers :: "PhomoStage \<Rightarrow> Table \<Rightarrow> string list" where
  "streamConsumers stage t =
     map functionName
       (filter (\<lambda>f. list_ex (readsStream t) (eventSources f)) (stageFunctions stage))"

definition mayInvoke :: "Function \<Rightarrow> string \<Rightarrow> bool" where
  "mayInvoke caller callee = (GrantInvoke callee \<in> set (rolePolicy caller))"

definition invokers :: "PhomoStage \<Rightarrow> string \<Rightarrow> string list" where
  "invokers stage callee =
     map functionName (filter (\<lambda>f. mayInvoke f callee) (stageFunctions stage))"

definition rulesTargeting :: "PhomoStage \<Rightarrow> string \<Rightarrow> string list" where
  "rulesTargeting stage n =
     map ruleName (filter (\<lambda>r. LambdaFunction n \<in> set (targets r)) (stageRules stage))"

fun servesFunction :: "string \<Rightarrow> DataSource \<Rightarrow> bool" where
  "servesFunction n (LambdaDataSource i m) = (m = n)"
| "servesFunction n (DynamoDbDataSource i t) = False"

text \<open>
  The calls that a run of a function gets through: a call to a function that its role
  may not invoke is refused.
\<close>

definition performed :: "Function \<Rightarrow> string list \<Rightarrow> string list" where
  "performed caller calls = filter (mayInvoke caller) calls"

subsection \<open>Queue redelivery\<close>

text \<open>
  A function polls its queue in batches of at most \<open>batchSize\<close> messages.  An invocation
  that raises an error returns every message of its batch to the queue with its receive
  count raised by one; a successful invocation deletes its batch.  Before a poll, the
  redrive policy moves each message that has been received \<open>maxReceiveCount\<close> times to the
  dead-letter queue.  The handler is the predicate \<open>ok\<close>: the messages it can process.
\<close>

function chunk :: "nat \<Rightarrow> 'a list \<Rightarrow> 'a list list" where
  "chunk n xs = (if n = 0 \<or> xs = [] then [] else take n xs # chunk n (drop n xs))"
  by pat_completeness auto
termination
  by (relation "measure (\<lambda>(n, xs). length xs)") auto

record 'm QueueState =
  visible :: "('m \<times> nat) list"
  deleted :: "'m list"
  deadLettered :: "'m list"
  delivered :: "'m list list"

definition enqueued :: "'m list \<Rightarrow> 'm QueueState" where
  "enqueued ms =
     \<lparr> visible = map (\<lambda>m. (m, 0)) ms, deleted = [], deadLettered = [], delivered = [] \<rparr>"

definition redrive :: "Queue \<Rightarrow> 'm QueueState \<Rightarrow> 'm QueueState" where
  "redrive q st =
     (case deadLetterQueue q of
        None \<Rightarrow> st
      | Some d \<Rightarrow>
          st\<lparr> visible := filter (\<lambda>mc. snd mc < maxReceiveCount d) (visible st),
              deadLettered :=
                deadLettered st
                  @ map fst (filter (\<lambda>mc. \<not> snd mc < maxReceiveCount d) (visible st)) \<rparr>)"

definition invoke :: "('m \<Rightarrow> bool) \<Rightarrow> 'm QueueState \<Rightarrow> ('m \<times> nat) list \<Rightarrow> 'm QueueState" where
  "invoke ok st batch =
     (if list_all (\<lambda>mc. ok (fst mc)) batch
      then st\<lparr> deleted := deleted st @ map fst batch,
               delivered := delivered st @ [map fst batch] \<rparr>
      else st\<lparr> visible := visible st @ map (\<lambda>mc. (fst mc, Suc (snd mc))) batch,
               delivered := delivered st @ [map fst batch] \<rparr>)"

definition poll ::
  "Queue \<Rightarrow> SqsEventSourceProps \<Rightarrow> ('m \<Rightarrow> bool) \<Rightarrow> 'm QueueState \<Rightarrow> 'm QueueState" where
  "poll q props ok st =
     (let st' = redrive q st
      in foldl (invoke ok) (st'\<lparr>visible := []\<rparr>)
           (chunk (SqsEventSourceProps.batchSize props) (visible st')))"

text \<open>
  The photo-processing pipeline of a stage, run for \<open>n\<close> polls on the messages \<open>ms\<close>: the
  queue and the batch settings are those of the event source of the face-processing
  function.
\<close>

definition photoProcessing ::
  "PhomoStage \<Rightarrow> ('m \<Rightarrow> bool) \<Rightarrow> nat \<Rightarrow> 'm list \<Rightarrow> 'm QueueState option" where
  "photoProcessing stage ok n ms =
     (case eventSources (processContentFacesFunction (faceProcessingStack stage)) of
        [SqsEventSource q props] \<Rightarrow> Some ((poll q props ok ^^ n) (enqueued ms))
      | _ \<Rightarrow> None)"

subsection \<open>Stream batches\<close>

text \<open>
  A function reads a table stream in batches.  When the invocation on a batch raises an
  error and \<open>bisectBatchOnError\<close> is set, the batch is split into two halves that are
  retried on their own (splitting does not use up a retry); a batch that cannot be split
  is retried until \<open>retryAttempts\<close> retries are used up.  Its records then go to the
  \<open>onFailure\<close> destination when one is configured and are dropped otherwise.
\<close>

record 'r Outcome =
  succeeded :: "'r list"
  sentToDestination :: "'r list"
  dropped :: "'r list"
  invocations :: nat

definition invoked :: "'r Outcome \<Rightarrow> 'r Outcome" where
  "invoked out = out\<lparr>invocations := Suc (invocations out)\<rparr>"

definition both :: "'r Outcome \<Rightarrow> 'r Outcome \<Rightarrow> 'r Outcome" where
  "both a b =
     \<lparr> succeeded = succeeded a @ succeeded b,
       sentToDestination = sentToDestination a @ sentToDestination b,
       dropped = dropped a @ dropped b,
       invocations = invocations a + invocations b \<rparr>"

definition exhausted :: "DynamoEventSourceProps \<Rightarrow> 'r list \<Rightarrow> 'r Outcome" where
  "exhausted props batch =
     (case onFailure props of
        None \<Rightarrow> \<lparr> succeeded = [], sentToDestination = [], dropped = batch, invocations = 0 \<rparr>
      | Some q \<Rightarrow>
          \<lparr> succeeded = [], sentToDestination = batch, dropped = [], invocations = 0 \<rparr>)"

function processBatch ::
  "DynamoEventSourceProps \<Rightarrow> ('r \<Rightarrow> bool) \<Rightarrow> nat \<Rightarrow> 'r list \<Rightarrow> 'r Outcome" where
  "processBatch props ok retriesLeft batch =
     (if list_all ok batch
      then \<lparr> succeeded = batch, sentToDestination = [], dropped = [], invocations = 1 \<rparr>
      else if bisectBatchOnError props \<and> 1 < length batch
      then invoked
             (both (processBatch props ok retriesLeft (take (length batch div 2) batch))
                   (processBatch props ok retriesLeft (drop (length batch div 2) batch)))
      else if 0 < retriesLeft
      then invoked (processBatch props ok (retriesLeft - 1) batch)
      else invoked (exhausted props batch))"
  by pat_completeness auto
termination
  by (relation "measures [\<lambda>(props, ok, r, b). length b, \<lambda>(props, ok, r, b). r]") auto

definition processStream :: "DynamoEventSourceProps \<Rightarrow> ('r \<Rightarrow> bool) \<Rightarrow> 'r list \<Rightarrow> 'r Outcome" where
  "processStream props ok records =
     foldl both \<lparr> succeeded = [], sentToDestination = [], dropped = [], invocations = 0 \<rparr>
       (map (processBatch props ok (retryAttempts props))
          (chunk (DynamoEventSourceProps.batchSize props) records))"

text \<open>The feed materializer of a stage, run on the stream records \<open>records\<close>.\<close>

definition feedEntrySync :: "PhomoStage \<Rightarrow> ('r \<Rightarrow> bool) \<Rightarrow> 'r list \<Rightarrow> 'r Outcome option" where
  "feedEntrySync stage ok records =
     (case eventSources (feedEntrySyncFunction (streamProcessingStack stage)) of
        [DynamoEventSource t props] \<Rightarrow> Some (processStream props ok records)
      | _ \<Rightarrow> None)"

subsection \<open>Role policies\<close>

text \<open>
  In a resource or action pattern \<^verbatim>\<open>*\<close> stands for any sequence of characters and
  \<^verbatim>\<open>?\<close> for any single character.
\<close>

fun wildcardMatch :: "string \<Rightarrow> string \<Rightarrow> bool" where
  "wildcardMatch [] v = (v = [])"
| "wildcardMatch (p # ps) [] = (p = CHR ''*'' \<and> wildcardMatch ps [])"
| "wildcardMatch (p # ps) (c # cs) =
     (if p = CHR ''*'' then wildcardMatch ps (c # cs) \<or> wildcardMatch (p # ps) cs
      else (p = CHR ''?'' \<or> p = c) \<and> wildcardMatch ps cs)"

text \<open>
  Policy variables: each occurrence of the identity variable in a pattern is replaced by
  the identity of the caller.  The first argument counts the characters of an occurrence
  that are still to be skipped.
\<close>

fun expand :: "nat \<Rightarrow> string \<Rightarrow> string \<Rightarrow> string" where
  "expand k sub [] = []"
| "expand (Suc k) sub (c # cs) = expand k sub cs"
| "expand 0 sub (c # cs) =
     (if take (length subVariable) (c # cs) = subVariable
      then sub @ expand (length subVariable - 1) sub cs
      else c # expand 0 sub cs)"

record Request =
  principal :: string
  action :: string
  resource :: string
  requestContext :: "(string \<times> string) list"

definition conditionHolds :: "Request \<Rightarrow> Condition \<Rightarrow> bool" where
  "conditionHolds req c =
     (case c of (operator, key, values) \<Rightarrow>
        operator = ''StringLike''
        \<and> (case map_of (requestContext req) key of
             None \<Rightarrow> False
           | Some v \<Rightarrow> list_ex (\<lambda>p. wildcardMatch (expand 0 (principal req) p) v) values))"

definition applies :: "PolicyStatement \<Rightarrow> Request \<Rightarrow> bool" where
  "applies st req =
     (list_ex (\<lambda>a. wildcardMatch a (action req)) (actions st)
      \<and> list_ex (\<lambda>r. wildcardMatch (expand 0 (principal req) r) (resource req)) (resources st)
      \<and> list_all (conditionHolds req) (conditions st))"

text \<open>A request is allowed when an Allow statement applies and no Deny statement does.\<close>

definition allows :: "Role \<Rightarrow> Request \<Rightarrow> bool" where
  "allows r req =
     (list_ex (\<lambda>st. effect st = ALLOW \<and> applies st req) (policy r)
      \<and> \<not> list_ex (\<lambda>st. effect st = DENY \<and> applies st req) (policy r))"

section \<open>Properties of the stage\<close>

lemmas table_defs =
  UserTable_def FriendshipTable_def ContentTable_def RecipientEdgeTable_def
  FeedEntryTable_def FaceIdentityTable_def ContentFaceTable_def EventTable_def
  EventMemberTable_def addGlobalSecondaryIndex_def isProd_def

lemmas grant_defs =
  grant_def grantReadData_def grantWriteData_def grantReadWriteData_def grantRead_def
  grantInvoke_def addToRolePolicy_def addEventSource_def

lemmas function_defs =
  ProcessContentFacesFunction_def EnrollFaceFunction_def RetroactiveMatchFunction_def
  FeedEntrySyncFunction_def SendEventRemindersFunction_def AcceptFriendshipFunction_def
  GetContentUrlFunction_def FindFriendsByPhoneFunction_def

lemmas stack_defs =
  PhomoStage_def AuthStack_def StorageStack_def DatabaseStack_def RekognitionStack_def
  FaceProcessingStack_def StreamProcessingStack_def ScheduledJobsStack_def ApiStack_def
  Let_def

subsection \<open>The change feed of RecipientEdge\<close>

text \<open>
  C1.  In every stage the RecipientEdge table has a stream with the \<open>NEW_IMAGE\<close> view;
  the only function of the stage that reads this stream is the feed-entry-sync function,
  whose single event source is that stream (batches of 10 from the trim horizon); and
  the role of that function holds exactly a read grant on the Content table and a write
  grant on the FeedEntry table.
\<close>

theorem recipient_edge_stream_feeds_feed_entry_sync:
  "stream (recipientEdgeTable (databaseStack (PhomoStage stageName))) = Some NEW_IMAGE
   \<and> streamConsumers (PhomoStage stageName)
         (recipientEdgeTable (databaseStack (PhomoStage stageName)))
       = [''phomo-feed-entry-sync-'' @ stageName]
   \<and> functionName (feedEntrySyncFunction (streamProcessingStack (PhomoStage stageName)))
       = ''phomo-feed-entry-sync-'' @ stageName
   \<and> eventSources (feedEntrySyncFunction (streamProcessingStack (PhomoStage stageName)))
       = [DynamoEventSource (recipientEdgeTable (databaseStack (PhomoStage stageName)))
            \<lparr> startingPosition = TRIM_HORIZON, DynamoEventSourceProps.batchSize = 10,
              bisectBatchOnError = True, retryAttempts = 3, onFailure = None \<rparr>]
   \<and> rolePolicy (feedEntrySyncFunction (streamProcessingStack (PhomoStage stageName)))
       = [GrantReadData (contentTable (databaseStack (PhomoStage stageName))),
          GrantWriteData (feedEntryTable (databaseStack (PhomoStage stageName)))]"
  by (simp add: stack_defs streamConsumers_def stageFunctions_def function_defs grant_defs
        RecipientEdgeTable_def addGlobalSecondaryIndex_def)

theorem recipient_edge_stream_feeds_feed_entry_sync_witness:
  "streamConsumers (PhomoStage ''dev'') (recipientEdgeTable (databaseStack (PhomoStage ''dev'')))
     = [''phomo-feed-entry-sync-dev'']"
  using recipient_edge_stream_feeds_feed_entry_sync [of "''dev''"] by simp

subsection \<open>Protection of the persistent resources\<close>

text \<open>
  C10, as amended.  Each of the nine tables of a stage has point-in-time recovery and
  deletion protection exactly when the stage name is \<open>prod\<close>, and is retained on removal
  in \<open>prod\<close> and destroyed otherwise; the photo bucket and the user pool are retained in
  \<open>prod\<close> and destroyed otherwise, the bucket deleting its objects automatically outside
  \<open>prod\<close> and the user pool being deletion-protected in \<open>prod\<close> only.  This protection
  does not reach every persistent resource of the stage: the face collection has no
  removal policy in any stage.
\<close>

theorem persistent_resources_protected_iff_prod:
  "list_all (\<lambda>t. pointInTimeRecovery t = (stageName = ''prod'')
                 \<and> Table.deletionProtection t = (stageName = ''prod'')
                 \<and> Table.removalPolicy t = (if stageName = ''prod'' then RETAIN else DESTROY))
      (tables (databaseStack (PhomoStage stageName)))
   \<and> length (tables (databaseStack (PhomoStage stageName))) = 9
   \<and> distinct (map tableName (tables (databaseStack (PhomoStage stageName))))
   \<and> Bucket.removalPolicy (photoBucket (storageStack (PhomoStage stageName)))
       = (if stageName = ''prod'' then RETAIN else DESTROY)
   \<and> autoDeleteObjects (photoBucket (storageStack (PhomoStage stageName)))
       = (stageName \<noteq> ''prod'')
   \<and> UserPool.removalPolicy (userPool (authStack (PhomoStage stageName)))
       = (if stageName = ''prod'' then RETAIN else DESTROY)
   \<and> UserPool.deletionProtection (userPool (authStack (PhomoStage stageName)))
       = (stageName = ''prod'')
   \<and> deletionPolicy (faceCollection (rekognitionStack (PhomoStage stageName))) = None"
  by (simp add: stack_defs tables_def table_defs PhotoBucket_def FaceCollection_def)

theorem persistent_resources_protected_iff_prod_witness:
  "Table.removalPolicy (recipientEdgeTable (databaseStack (PhomoStage ''prod''))) = RETAIN
   \<and> Table.removalPolicy (recipientEdgeTable (databaseStack (PhomoStage ''dev''))) = DESTROY
   \<and> Bucket.removalPolicy (photoBucket (storageStack (PhomoStage ''prod''))) = RETAIN
   \<and> autoDeleteObjects (photoBucket (storageStack (PhomoStage ''dev'')))
   \<and> deletionPolicy (faceCollection (rekognitionStack (PhomoStage ''staging''))) = None"
  using persistent_resources_protected_iff_prod [of "''prod''"]
    persistent_resources_protected_iff_prod [of "''dev''"]
    persistent_resources_protected_iff_prod [of "''staging''"]
  by (simp add: tables_def)

text \<open>
  The claim as it stands fails: in stage \<open>prod\<close> the face collection, which holds the
  enrolled faces, is not retained on removal.
\<close>

theorem face_collection_not_retained_in_prod:
  "\<not> retained (deletionPolicy (faceCollection (rekognitionStack (PhomoStage ''prod''))))"
  by (simp add: stack_defs FaceCollection_def retained_def)

subsection \<open>The attributes of RecipientEdge\<close>

lemma validNumber_small: "\<bar>n\<bar> < 10 ^ 38 \<Longrightarrow> validNumber n"
  unfolding validNumber_def by (rule bexI [of _ 0]) simp_all

lemmas item_defs =
  accepts_def indexAccepts_def wellFormed_def itemSize_def hasKey_def indexKeyOk_def
  keyValueOk_def maxPartitionKeyBytes_def maxSortKeyBytes_def

lemma sort_key_fits_partition_key:
  "indexKeyOk maxSortKeyBytes a item \<Longrightarrow> indexKeyOk maxPartitionKeyBytes a item"
  by (cases "map_of item (Attribute.name a)")
     (auto simp add: indexKeyOk_def keyValueOk_def maxPartitionKeyBytes_def
        maxSortKeyBytes_def elim: keyBytesOk.elims)

text \<open>
  C2, as amended.  The RecipientEdge table declares five attributes, all of them strings:
  its key \<open>edgeId\<close> and the index keys \<open>recipientUserId\<close>, \<open>createdAt\<close>, \<open>contentId\<close> and
  \<open>contentOwnerId\<close>.  It takes a well-formed item exactly when the item has an \<open>edgeId\<close>
  that is a non-empty string of at most 2048 bytes and each index key that the item
  has is a non-empty string, of at most 1024 bytes for \<open>recipientUserId\<close> and
  \<open>createdAt\<close> and of at most 2048 bytes for \<open>contentId\<close> and \<open>contentOwnerId\<close>.  The
  method, the confidence and the provenance of an edge are not declared, and the table
  restricts neither their presence nor their values.
\<close>

theorem recipient_edge_declares_keys_only:
  "attributeDefinitions (recipientEdgeTable (databaseStack (PhomoStage stageName)))
     = Some [\<lparr>Attribute.name = ''edgeId'', type = STRING\<rparr>,
             \<lparr>Attribute.name = ''recipientUserId'', type = STRING\<rparr>,
             \<lparr>Attribute.name = ''createdAt'', type = STRING\<rparr>,
             \<lparr>Attribute.name = ''contentId'', type = STRING\<rparr>,
             \<lparr>Attribute.name = ''contentOwnerId'', type = STRING\<rparr>]
   \<and> (wellFormed item \<longrightarrow>
        accepts (recipientEdgeTable (databaseStack (PhomoStage stageName))) item
          = (hasKey maxPartitionKeyBytes \<lparr>Attribute.name = ''edgeId'', type = STRING\<rparr> item
             \<and> indexKeyOk maxSortKeyBytes
                 \<lparr>Attribute.name = ''recipientUserId'', type = STRING\<rparr> item
             \<and> indexKeyOk maxSortKeyBytes
                 \<lparr>Attribute.name = ''createdAt'', type = STRING\<rparr> item
             \<and> indexKeyOk maxPartitionKeyBytes
                 \<lparr>Attribute.name = ''contentId'', type = STRING\<rparr> item
             \<and> indexKeyOk maxPartitionKeyBytes
                 \<lparr>Attribute.name = ''contentOwnerId'', type = STRING\<rparr> item))"
  using sort_key_fits_partition_key [of _ item]
  by (auto simp add: stack_defs RecipientEdgeTable_def addGlobalSecondaryIndex_def
        attributeDefinitions_def indexKeys_def accepts_def indexAccepts_def)

text \<open>
  In stage \<open>prod\<close> the table takes an edge with a confidence of 250, and takes neither an
  edge with an empty \<open>edgeId\<close> nor one whose \<open>createdAt\<close> is a number.
\<close>

theorem recipient_edge_declares_keys_only_witness:
  "wellFormed [(''edgeId'', S ''e7''), (''createdAt'', S ''2025-01-01T00:00:00Z''),
               (''confidence'', N 250)]
   \<and> accepts (recipientEdgeTable (databaseStack (PhomoStage ''prod'')))
       [(''edgeId'', S ''e7''), (''createdAt'', S ''2025-01-01T00:00:00Z''),
        (''confidence'', N 250)]
   \<and> wellFormed [(''edgeId'', S ''''), (''createdAt'', S ''2025-01-01T00:00:00Z'')]
   \<and> \<not> accepts (recipientEdgeTable (databaseStack (PhomoStage ''prod'')))
         [(''edgeId'', S ''''), (''createdAt'', S ''2025-01-01T00:00:00Z'')]
   \<and> wellFormed [(''edgeId'', S ''e7''), (''createdAt'', N 1735689600)]
   \<and> \<not> accepts (recipientEdgeTable (databaseStack (PhomoStage ''prod'')))
         [(''edgeId'', S ''e7''), (''createdAt'', N 1735689600)]"
  using recipient_edge_declares_keys_only
          [where stageName = "''prod''"
             and item = "[(''edgeId'', S ''e7''), (''createdAt'', S ''2025-01-01T00:00:00Z''),
                          (''confidence'', N 250)]"]
        recipient_edge_declares_keys_only
          [where stageName = "''prod''"
             and item = "[(''edgeId'', S ''''), (''createdAt'', S ''2025-01-01T00:00:00Z'')]"]
        recipient_edge_declares_keys_only
          [where stageName = "''prod''"
             and item = "[(''edgeId'', S ''e7''), (''createdAt'', N 1735689600)]"]
  by (simp add: wellFormed_def itemSize_def hasKey_def indexKeyOk_def keyValueOk_def
        maxPartitionKeyBytes_def maxSortKeyBytes_def validNumber_small)

text \<open>
  The claim as it stands fails: the table of stage \<open>dev\<close> holds an edge whose method is
  \<open>SHARED_CAMERA\<close>, whose confidence is 150, and which has neither a \<open>provenance\<close> nor a
  \<open>createdAt\<close> attribute.
\<close>

theorem recipient_edge_outside_value_sets:
  "accepts (recipientEdgeTable (databaseStack (PhomoStage ''dev'')))
     [(''edgeId'', S ''e1''), (''contentId'', S ''c1''), (''recipientUserId'', S ''bob''),
      (''contentOwnerId'', S ''alice''), (''method'', S ''SHARED_CAMERA''),
      (''confidence'', N 150), (''sourceType'', S ''REALTIME'')]
   \<and> map_of
     [(''edgeId'', S ''e1''), (''contentId'', S ''c1''), (''recipientUserId'', S ''bob''),
      (''contentOwnerId'', S ''alice''), (''method'', S ''SHARED_CAMERA''),
      (''confidence'', N 150), (''sourceType'', S ''REALTIME'')] ''method''
       = Some (S ''SHARED_CAMERA'')
   \<and> ''SHARED_CAMERA'' \<notin> set [''FACE_MATCH'', ''SHARED_EVENT'', ''MANUAL'']
   \<and> map_of
     [(''edgeId'', S ''e1''), (''contentId'', S ''c1''), (''recipientUserId'', S ''bob''),
      (''contentOwnerId'', S ''alice''), (''method'', S ''SHARED_CAMERA''),
      (''confidence'', N 150), (''sourceType'', S ''REALTIME'')] ''confidence''
       = Some (N 150)
   \<and> \<not> (150 :: int) \<le> 100
   \<and> map_of
     [(''edgeId'', S ''e1''), (''contentId'', S ''c1''), (''recipientUserId'', S ''bob''),
      (''contentOwnerId'', S ''alice''), (''method'', S ''SHARED_CAMERA''),
      (''confidence'', N 150), (''sourceType'', S ''REALTIME'')] ''provenance''
       = None
   \<and> map_of
     [(''edgeId'', S ''e1''), (''contentId'', S ''c1''), (''recipientUserId'', S ''bob''),
      (''contentOwnerId'', S ''alice''), (''method'', S ''SHARED_CAMERA''),
      (''confidence'', N 150), (''sourceType'', S ''REALTIME'')] ''createdAt''
       = None"
  by (simp add: stack_defs RecipientEdgeTable_def addGlobalSecondaryIndex_def
        item_defs validNumber_small)

subsection \<open>The feed index\<close>

text \<open>
  C3, as amended.  The FeedEntry table has one index, \<open>UserFeedIndex\<close>, with partition key
  \<open>recipientUserId\<close> and sort key \<open>edgeCreatedAt\<close>, both strings, and the table is
  registered as a data source of the API; the API has no resolver, so no read path of the
  stage queries the index and nothing in the stage fixes the order of a feed listing.
\<close>

theorem user_feed_index_declared_without_read_path:
  "globalSecondaryIndexes (feedEntryTable (databaseStack (PhomoStage stageName)))
     = [\<lparr> indexName = ''UserFeedIndex'',
          GlobalSecondaryIndexProps.partitionKey =
            \<lparr>Attribute.name = ''recipientUserId'', type = STRING\<rparr>,
          sortKey = Some \<lparr>Attribute.name = ''edgeCreatedAt'', type = STRING\<rparr> \<rparr>]
   \<and> DynamoDbDataSource ''FeedEntryTableDataSource''
         (feedEntryTable (databaseStack (PhomoStage stageName)))
        \<in> set (dataSources (api (apiStack (PhomoStage stageName))))
   \<and> resolvers (api (apiStack (PhomoStage stageName))) = []"
  by (simp add: stack_defs PhomoApi_def FeedEntryTable_def addGlobalSecondaryIndex_def)

theorem user_feed_index_declared_without_read_path_witness:
  "map indexName (globalSecondaryIndexes (feedEntryTable (databaseStack (PhomoStage ''staging''))))
     = [''UserFeedIndex'']"
  using user_feed_index_declared_without_read_path [of "''staging''"] by simp

text \<open>
  The claim as it stands fails: in stage \<open>dev\<close> the API has no resolver at all, hence no
  feed listing that could return rows in any order.
\<close>

theorem feed_listing_has_no_resolver:
  "resolvers (api (apiStack (PhomoStage ''dev''))) = []"
  by (simp add: stack_defs PhomoApi_def)

subsection \<open>From an upload to face processing\<close>

lemma take_prefix_iff: "(take (length p) v = p) = (\<exists>rest. v = p @ rest)"
  by (metis append_eq_conv_conj append_take_drop_id)

text \<open>
  C4.  In every stage the photo bucket sends its object events to EventBridge, and an
  object event of the bucket starts a function of the stage exactly when it is an
  \<open>Object Created\<close> event whose key begins with \<open>photos/\<close>; the function started is then
  the face-processing function and no other.  The path is the upload rule, whose only
  target is the photo-processing queue, and that queue is the only event source of the
  face-processing function, read one message at a time.  Nothing else starts the
  face-processing function: no role of the stage may invoke it, no rule targets it and
  no data source of the API serves it.
\<close>

theorem photo_creation_starts_face_processing:
  "started (PhomoStage stageName) kind key
     = (if kind = ''Object Created'' \<and> (\<exists>rest. key = ''photos/'' @ rest)
        then [''phomo-process-content-faces-'' @ stageName] else [])
   \<and> eventBridgeEnabled (photoBucket (storageStack (PhomoStage stageName)))
   \<and> targets (photoUploadRule (faceProcessingStack (PhomoStage stageName)))
       = [SqsQueue (photoProcessingQueue (faceProcessingStack (PhomoStage stageName)))]
   \<and> eventSources (processContentFacesFunction (faceProcessingStack (PhomoStage stageName)))
       = [SqsEventSource (photoProcessingQueue (faceProcessingStack (PhomoStage stageName)))
            \<lparr> SqsEventSourceProps.batchSize = 1, maxBatchingWindow = 0 \<rparr>]
   \<and> invokers (PhomoStage stageName) (''phomo-process-content-faces-'' @ stageName) = []
   \<and> rulesTargeting (PhomoStage stageName) (''phomo-process-content-faces-'' @ stageName) = []
   \<and> filter (servesFunction (''phomo-process-content-faces-'' @ stageName))
        (dataSources (api (apiStack (PhomoStage stageName)))) = []"
  unfolding take_prefix_iff [symmetric]
  by (simp add: stack_defs started_def emits_def PhotoBucket_def firedTargets_def
        stageRules_def ruleFires_def PhotoUploadRule_def EventReminderRule_def addTarget_def
        matchesPattern_def stageFunctions_def function_defs grant_defs seconds_def
        invokers_def mayInvoke_def rulesTargeting_def PhomoApi_def)

theorem photo_creation_starts_face_processing_witness:
  "started (PhomoStage ''dev'') ''Object Created'' ''photos/alice/p1.jpg''
     = [''phomo-process-content-faces-dev'']
   \<and> started (PhomoStage ''dev'') ''Object Created'' ''faces/alice/f1.jpg'' = []
   \<and> started (PhomoStage ''dev'') ''Object Deleted'' ''photos/alice/p1.jpg'' = []"
  using photo_creation_starts_face_processing [of "''dev''" "''Object Created''" "''photos/alice/p1.jpg''"]
    photo_creation_starts_face_processing [of "''dev''" "''Object Created''" "''faces/alice/f1.jpg''"]
    photo_creation_starts_face_processing [of "''dev''" "''Object Deleted''" "''photos/alice/p1.jpg''"]
  by simp

subsection \<open>Friendship edges\<close>

text \<open>
  C7, as amended.  The Friendship table is keyed by \<open>friendshipId\<close> and has the three
  indexes \<open>User1Index\<close> on \<open>user1Id\<close> and \<open>status\<close>, \<open>User2Index\<close> on \<open>user2Id\<close> and
  \<open>status\<close>, and \<open>UserPairIndex\<close> on \<open>userPair\<close>, which serve the lookups of the canonical
  form.  The table itself decides by \<open>friendshipId\<close> alone.  It takes a well-formed item
  exactly when the item has a \<open>friendshipId\<close> that is a non-empty string of at most 2048
  bytes and each index key that the item has is a non-empty string, of at most 2048
  bytes for \<open>user1Id\<close>, \<open>user2Id\<close> and \<open>userPair\<close> and of at most 1024 bytes for
  \<open>status\<close>.  A put of an item that the table takes replaces the item with the same
  \<open>friendshipId\<close> and keeps every other item, whatever the user identifiers and the pair
  key of the two are.  The order of the two identifiers and a single edge per pair are
  left to the writers.
\<close>

theorem friendship_identified_by_friendship_id:
  "Table.partitionKey (friendshipTable (databaseStack (PhomoStage stageName)))
     = \<lparr>Attribute.name = ''friendshipId'', type = STRING\<rparr>
   \<and> globalSecondaryIndexes (friendshipTable (databaseStack (PhomoStage stageName)))
       = [\<lparr> indexName = ''User1Index'',
            GlobalSecondaryIndexProps.partitionKey =
              \<lparr>Attribute.name = ''user1Id'', type = STRING\<rparr>,
            sortKey = Some \<lparr>Attribute.name = ''status'', type = STRING\<rparr> \<rparr>,
          \<lparr> indexName = ''User2Index'',
            GlobalSecondaryIndexProps.partitionKey =
              \<lparr>Attribute.name = ''user2Id'', type = STRING\<rparr>,
            sortKey = Some \<lparr>Attribute.name = ''status'', type = STRING\<rparr> \<rparr>,
          \<lparr> indexName = ''UserPairIndex'',
            GlobalSecondaryIndexProps.partitionKey =
              \<lparr>Attribute.name = ''userPair'', type = STRING\<rparr>,
            sortKey = None \<rparr>]
   \<and> putItem (friendshipTable (databaseStack (PhomoStage stageName))) item store
       = (if accepts (friendshipTable (databaseStack (PhomoStage stageName))) item
          then Some (item # filter (\<lambda>old. map_of old ''friendshipId''
                                             \<noteq> map_of item ''friendshipId'') store)
          else None)
   \<and> (wellFormed item \<longrightarrow>
        accepts (friendshipTable (databaseStack (PhomoStage stageName))) item
          = (hasKey maxPartitionKeyBytes
               \<lparr>Attribute.name = ''friendshipId'', type = STRING\<rparr> item
             \<and> indexKeyOk maxPartitionKeyBytes
                 \<lparr>Attribute.name = ''user1Id'', type = STRING\<rparr> item
             \<and> indexKeyOk maxPartitionKeyBytes
                 \<lparr>Attribute.name = ''user2Id'', type = STRING\<rparr> item
             \<and> indexKeyOk maxPartitionKeyBytes
                 \<lparr>Attribute.name = ''userPair'', type = STRING\<rparr> item
             \<and> indexKeyOk maxSortKeyBytes
                 \<lparr>Attribute.name = ''status'', type = STRING\<rparr> item))"
  by (auto simp add: stack_defs FriendshipTable_def addGlobalSecondaryIndex_def
        putItem_def accepts_def indexAccepts_def primaryKey_def)

text \<open>
  In stage \<open>dev\<close> the table holds an edge \<open>f1\<close> of \<open>alice\<close> and \<open>bob\<close> and takes a second
  edge \<open>f2\<close> of the same two users with the same pair key: it then holds both.  It does
  not take an edge with an empty \<open>friendshipId\<close>.
\<close>

theorem friendship_identified_by_friendship_id_witness:
  "wellFormed
     [(''friendshipId'', S ''f2''), (''user1Id'', S ''alice''), (''user2Id'', S ''bob''),
      (''userPair'', S ''alice#bob''), (''status'', S ''PENDING'')]
   \<and> putItem (friendshipTable (databaseStack (PhomoStage ''dev'')))
     [(''friendshipId'', S ''f2''), (''user1Id'', S ''alice''), (''user2Id'', S ''bob''),
      (''userPair'', S ''alice#bob''), (''status'', S ''PENDING'')]
     [ [(''friendshipId'', S ''f1''), (''user1Id'', S ''alice''), (''user2Id'', S ''bob''),
      (''userPair'', S ''alice#bob''), (''status'', S ''ACCEPTED'')] ]
   = Some [ [(''friendshipId'', S ''f2''), (''user1Id'', S ''alice''), (''user2Id'', S ''bob''),
      (''userPair'', S ''alice#bob''), (''status'', S ''PENDING'')],
     [(''friendshipId'', S ''f1''), (''user1Id'', S ''alice''), (''user2Id'', S ''bob''),
      (''userPair'', S ''alice#bob''), (''status'', S ''ACCEPTED'')] ]
   \<and> wellFormed [(''friendshipId'', S '''') ]
   \<and> putItem (friendshipTable (databaseStack (PhomoStage ''dev'')))
        [(''friendshipId'', S '''') ] [] = None"
  using friendship_identified_by_friendship_id
          [where stageName = "''dev''"
             and item = "[(''friendshipId'', S ''f2''), (''user1Id'', S ''alice''), (''user2Id'', S ''bob''),
      (''userPair'', S ''alice#bob''), (''status'', S ''PENDING'')]"
             and store = "[ [(''friendshipId'', S ''f1''), (''user1Id'', S ''alice''), (''user2Id'', S ''bob''),
      (''userPair'', S ''alice#bob''), (''status'', S ''ACCEPTED'')] ]"]
        friendship_identified_by_friendship_id
          [where stageName = "''dev''" and item = "[(''friendshipId'', S '''') ]"
             and store = "[]"]
  by (simp add: wellFormed_def itemSize_def hasKey_def indexKeyOk_def keyValueOk_def
        maxPartitionKeyBytes_def maxSortKeyBytes_def)

text \<open>
  The claim as it stands fails: the table of stage \<open>dev\<close> takes an edge from \<open>bob\<close> to
  \<open>alice\<close>, whose identifiers are not in order, and then the reverse edge from \<open>alice\<close> to
  \<open>bob\<close> under another \<open>friendshipId\<close>, and holds both.
\<close>

theorem friendship_reverse_duplicate_stored:
  "putItem (friendshipTable (databaseStack (PhomoStage ''dev'')))
     [(''friendshipId'', S ''f1''), (''user1Id'', S ''bob''), (''user2Id'', S ''alice''),
      (''userPair'', S ''bob#alice''), (''status'', S ''PENDING'')] []
   = Some [ [(''friendshipId'', S ''f1''), (''user1Id'', S ''bob''), (''user2Id'', S ''alice''),
            (''userPair'', S ''bob#alice''), (''status'', S ''PENDING'')] ]
   \<and> putItem (friendshipTable (databaseStack (PhomoStage ''dev'')))
     [(''friendshipId'', S ''f2''), (''user1Id'', S ''alice''), (''user2Id'', S ''bob''),
      (''userPair'', S ''alice#bob''), (''status'', S ''PENDING'')]
     [ [(''friendshipId'', S ''f1''), (''user1Id'', S ''bob''), (''user2Id'', S ''alice''),
       (''userPair'', S ''bob#alice''), (''status'', S ''PENDING'')] ]
   = Some [ [(''friendshipId'', S ''f2''), (''user1Id'', S ''alice''), (''user2Id'', S ''bob''),
            (''userPair'', S ''alice#bob''), (''status'', S ''PENDING'')],
           [(''friendshipId'', S ''f1''), (''user1Id'', S ''bob''), (''user2Id'', S ''alice''),
            (''userPair'', S ''bob#alice''), (''status'', S ''PENDING'')] ]"
  by (simp add: stack_defs FriendshipTable_def addGlobalSecondaryIndex_def
        putItem_def primaryKey_def item_defs)

subsection \<open>The trigger of retroactive matching\<close>

text \<open>
  C8, as amended.  In every stage the accept-friendship function is the only function
  whose role may invoke the retroactive-match function; the retroactive-match function
  has no event source, no rule of the stage targets it and no data source of the API
  serves it; and a run of any other function of the stage gets no call to it through.
  The wiring sets no bound on how often the accept-friendship function invokes it.
\<close>

theorem retroactive_match_invoked_by_accept_friendship_only:
  "invokers (PhomoStage stageName) (''phomo-retroactive-match-'' @ stageName)
     = [''phomo-accept-friendship-'' @ stageName]
   \<and> functionName (retroactiveMatchFunction (faceProcessingStack (PhomoStage stageName)))
       = ''phomo-retroactive-match-'' @ stageName
   \<and> eventSources (retroactiveMatchFunction (faceProcessingStack (PhomoStage stageName))) = []
   \<and> rulesTargeting (PhomoStage stageName) (''phomo-retroactive-match-'' @ stageName) = []
   \<and> filter (servesFunction (''phomo-retroactive-match-'' @ stageName))
        (dataSources (api (apiStack (PhomoStage stageName)))) = []
   \<and> list_all (\<lambda>f. functionName f = ''phomo-accept-friendship-'' @ stageName
                   \<or> ''phomo-retroactive-match-'' @ stageName \<notin> set (performed f calls))
        (stageFunctions (PhomoStage stageName))"
  by (simp add: stack_defs invokers_def mayInvoke_def performed_def rulesTargeting_def
        stageRules_def PhotoUploadRule_def EventReminderRule_def addTarget_def PhomoApi_def
        stageFunctions_def function_defs grant_defs)

theorem retroactive_match_invoked_by_accept_friendship_only_witness:
  "invokers (PhomoStage ''dev'') ''phomo-retroactive-match-dev'' = [''phomo-accept-friendship-dev'']
   \<and> rulesTargeting (PhomoStage ''dev'') ''phomo-retroactive-match-dev'' = []"
  using retroactive_match_invoked_by_accept_friendship_only
          [of "''dev''" "[''phomo-retroactive-match-dev'']"]
  by simp

text \<open>
  The claim as it stands fails: in stage \<open>dev\<close> a run of the accept-friendship function
  that calls the retroactive-match function twice gets both calls through, and a run
  that never calls it starts no retroactive match.
\<close>

theorem retroactive_match_count_not_bounded:
  "performed (acceptFriendshipFunction (apiStack (PhomoStage ''dev'')))
     [''phomo-retroactive-match-dev'', ''phomo-retroactive-match-dev'']
   = [''phomo-retroactive-match-dev'', ''phomo-retroactive-match-dev'']
   \<and> performed (acceptFriendshipFunction (apiStack (PhomoStage ''dev''))) [] = []"
  by (simp add: stack_defs mayInvoke_def performed_def function_defs grant_defs)

subsection \<open>Failed face processing\<close>

declare chunk.simps [simp del]

declare processBatch.simps [simp del]

lemma chunk_one: "chunk (Suc 0) xs = map (\<lambda>x. [x]) xs"
proof (induction xs)
  case Nil
  show ?case by (subst chunk.simps) simp
next
  case (Cons x xs)
  then show ?case by (subst chunk.simps) simp
qed

lemma foldl_invoke_singletons:
  "foldl (invoke ok) st (map (\<lambda>mc. [mc]) xs)
     = st\<lparr> visible := visible st
                @ map (\<lambda>mc. (fst mc, Suc (snd mc))) (filter (\<lambda>mc. \<not> ok (fst mc)) xs),
           deleted := deleted st @ map fst (filter (\<lambda>mc. ok (fst mc)) xs),
           delivered := delivered st @ map (\<lambda>mc. [fst mc]) xs \<rparr>"
  by (induction xs arbitrary: st) (simp_all add: invoke_def)

lemma poll_one_at_a_time:
  assumes "deadLetterQueue q = Some (DeadLetterQueue d k)"
    and "SqsEventSourceProps.batchSize props = 1"
  shows "poll q props ok st
     = \<lparr> visible = map (\<lambda>mc. (fst mc, Suc (snd mc)))
                     (filter (\<lambda>mc. \<not> ok (fst mc))
                        (filter (\<lambda>mc. snd mc < k) (visible st))),
         deleted = deleted st
                     @ map fst (filter (\<lambda>mc. ok (fst mc))
                                  (filter (\<lambda>mc. snd mc < k) (visible st))),
         deadLettered = deadLettered st
                          @ map fst (filter (\<lambda>mc. \<not> snd mc < k) (visible st)),
         delivered = delivered st
                       @ map (\<lambda>mc. [fst mc]) (filter (\<lambda>mc. snd mc < k) (visible st)) \<rparr>"
  using assms by (simp add: poll_def redrive_def chunk_one foldl_invoke_singletons)

lemma four_polls:
  assumes "deadLetterQueue q = Some (DeadLetterQueue d 3)"
    and "SqsEventSourceProps.batchSize props = 1"
  shows "(poll q props ok ^^ 4) (enqueued ms)
     = \<lparr> visible = [],
         deleted = filter ok ms,
         deadLettered = filter (\<lambda>m. \<not> ok m) ms,
         delivered =
           map (\<lambda>m. [m]) (ms @ filter (\<lambda>m. \<not> ok m) ms @ filter (\<lambda>m. \<not> ok m) ms) \<rparr>"
  by (simp add: numeral_eq_Suc poll_one_at_a_time [OF assms] enqueued_def filter_map comp_def)

lemma polls_when_idle:
  assumes "deadLetterQueue q = Some (DeadLetterQueue d k)"
    and "SqsEventSourceProps.batchSize props = 1"
    and "visible st = []"
  shows "(poll q props ok ^^ n) st = st"
proof (induction n)
  case 0
  show ?case by simp
next
  case (Suc n)
  have "poll q props ok st = st"
    using assms(3) by (simp add: poll_one_at_a_time [OF assms(1,2)])
  with Suc show ?case by simp
qed

text \<open>
  C5.  In every stage the photo-processing queue has the dead-letter queue of the stage
  as its dead-letter queue, with a maximal receive count of 3, and the dead-letter queue
  keeps its messages for 14 days.  Whatever messages are in the queue and whichever of
  them the face-processing function fails on: after four polls, and after any number of
  further polls, the queue is empty, every message the function can process has been
  processed and deleted, and every message it fails on is in the dead-letter queue after
  having been handed to the function three times, each time alone.
\<close>

theorem failed_face_processing_is_dead_lettered:
  "photoProcessing (PhomoStage stageName) ok (4 + n) ms
     = Some \<lparr> visible = [],
              deleted = filter ok ms,
              deadLettered = filter (\<lambda>m. \<not> ok m) ms,
              delivered =
                map (\<lambda>m. [m])
                  (ms @ filter (\<lambda>m. \<not> ok m) ms @ filter (\<lambda>m. \<not> ok m) ms) \<rparr>
   \<and> deadLetterQueue (photoProcessingQueue (faceProcessingStack (PhomoStage stageName)))
       = Some (DeadLetterQueue
                 (photoProcessingDLQ (faceProcessingStack (PhomoStage stageName))) 3)
   \<and> retentionPeriod (photoProcessingDLQ (faceProcessingStack (PhomoStage stageName)))
       = Some (days 14)"
proof -
  let ?q = "PhotoProcessingQueue stageName"
  let ?props = "\<lparr> SqsEventSourceProps.batchSize = 1, maxBatchingWindow = 0 \<rparr>"
  have run: "photoProcessing (PhomoStage stageName) ok (4 + n) ms
     = Some ((poll ?q ?props ok ^^ (4 + n)) (enqueued ms))"
    by (simp add: photoProcessing_def stack_defs function_defs grant_defs seconds_def)
  have dlq: "deadLetterQueue ?q = Some (DeadLetterQueue (PhotoProcessingDLQ stageName) 3)"
    by (simp add: PhotoProcessingQueue_def)
  have four: "(poll ?q ?props ok ^^ 4) (enqueued ms)
     = \<lparr> visible = [],
         deleted = filter ok ms,
         deadLettered = filter (\<lambda>m. \<not> ok m) ms,
         delivered =
           map (\<lambda>m. [m]) (ms @ filter (\<lambda>m. \<not> ok m) ms @ filter (\<lambda>m. \<not> ok m) ms) \<rparr>"
    using dlq by (rule four_polls) simp
  have "(poll ?q ?props ok ^^ (4 + n)) (enqueued ms)
     = (poll ?q ?props ok ^^ n) ((poll ?q ?props ok ^^ 4) (enqueued ms))"
    by (simp add: funpow_add add.commute)
  also have "\<dots> = (poll ?q ?props ok ^^ 4) (enqueued ms)"
  proof (rule polls_when_idle [OF dlq])
    show "SqsEventSourceProps.batchSize ?props = 1" by simp
    show "visible ((poll ?q ?props ok ^^ 4) (enqueued ms)) = []" by (subst four) simp
  qed
  finally show ?thesis
    using run dlq four by (simp add: stack_defs PhotoProcessingDLQ_def)
qed

theorem failed_face_processing_is_dead_lettered_witness:
  "photoProcessing (PhomoStage ''dev'') ((<) 0) 4 [1, 0, 2 :: nat]
     = Some \<lparr> visible = [], deleted = [1, 2], deadLettered = [0],
              delivered = [ [1], [0], [2], [0], [0] ] \<rparr>"
  using failed_face_processing_is_dead_lettered [of "''dev''" "(<) 0" 0 "[1, 0, 2 :: nat]"]
  by simp

subsection \<open>Failed stream records\<close>

lemma concat_chunk: "0 < n \<Longrightarrow> concat (chunk n xs) = xs"
proof (induction n xs rule: chunk.induct)
  case (1 n xs)
  then show ?case by (subst chunk.simps) auto
qed

lemma short_failing_batch:
  "\<not> list_all ok b \<Longrightarrow> \<not> 1 < length b \<Longrightarrow> filter ok b = [] \<and> filter (\<lambda>r. \<not> ok r) b = b"
  by (cases b) auto

lemma processBatch_bisecting:
  assumes "bisectBatchOnError props" "onFailure props = None"
  shows "succeeded (processBatch props ok k b) = filter ok b
       \<and> sentToDestination (processBatch props ok k b) = []
       \<and> dropped (processBatch props ok k b) = filter (\<lambda>r. \<not> ok r) b"
  using assms
proof (induction props ok k b rule: processBatch.induct)
  case (1 props ok k b)
  show ?case
  proof (cases "list_all ok b")
    case True
    then have "filter ok b = b" "filter (\<lambda>r. \<not> ok r) b = []"
      by (simp_all add: list_all_iff)
    with True show ?thesis by (subst (1 2 3) processBatch.simps) simp
  next
    case False
    show ?thesis
    proof (cases "1 < length b")
      case True
      have "filter p (take (length b div 2) b) @ filter p (drop (length b div 2) b)
              = filter p b" for p
        by (metis append_take_drop_id filter_append)
      with 1 False True show ?thesis
        by (subst (1 2 3) processBatch.simps) (simp add: invoked_def both_def)
    next
      case short: False
      show ?thesis
      proof (cases "0 < k")
        case True
        with 1 False short show ?thesis
          by (subst (1 2 3) processBatch.simps) (simp add: invoked_def)
      next
        case k0: False
        with 1 False short short_failing_batch [OF False short] show ?thesis
          by (subst (1 2 3) processBatch.simps) (simp add: invoked_def exhausted_def)
      qed
    qed
  qed
qed

lemma foldl_both:
  "succeeded (foldl both acc outs) = succeeded acc @ concat (map succeeded outs)
   \<and> sentToDestination (foldl both acc outs)
       = sentToDestination acc @ concat (map sentToDestination outs)
   \<and> dropped (foldl both acc outs) = dropped acc @ concat (map dropped outs)"
  by (induction outs arbitrary: acc) (simp_all add: both_def)

lemma processStream_bisecting:
  assumes "bisectBatchOnError props" "onFailure props = None"
    "0 < DynamoEventSourceProps.batchSize props"
  shows "succeeded (processStream props ok records) = filter ok records
       \<and> sentToDestination (processStream props ok records) = []
       \<and> dropped (processStream props ok records) = filter (\<lambda>r. \<not> ok r) records"
proof -
  let ?bs = "chunk (DynamoEventSourceProps.batchSize props) records"
  have c: "concat ?bs = records" using assms(3) by (rule concat_chunk)
  have "concat (map (\<lambda>b. filter p b) ?bs) = filter p records" for p
    by (metis c filter_concat)
  then show ?thesis
    by (simp add: processStream_def foldl_both comp_def processBatch_bisecting [OF assms(1,2)])
qed

lemma poison_record_alone:
  assumes "bisectBatchOnError props" "onFailure props = None" "\<not> ok r"
  shows "processBatch props ok k [r]
          = \<lparr> succeeded = [], sentToDestination = [], dropped = [r], invocations = Suc k \<rparr>"
  using assms
proof (induction k)
  case 0
  then show ?case by (subst processBatch.simps) (simp add: invoked_def exhausted_def)
next
  case (Suc k)
  then show ?case by (subst processBatch.simps) (simp add: invoked_def)
qed

lemma feedEntrySync_run:
  "feedEntrySync (PhomoStage stageName) ok records
     = Some (processStream
               \<lparr> startingPosition = TRIM_HORIZON, DynamoEventSourceProps.batchSize = 10,
                 bisectBatchOnError = True, retryAttempts = 3, onFailure = None \<rparr>
               ok records)"
  by (simp add: feedEntrySync_def stack_defs function_defs grant_defs)

text \<open>
  What the feed materializer does with failing records, in every stage: whatever records
  arrive and whichever of them the function fails on, every record it can process is
  processed, in order, and no record reaches a failure destination; a record that fails
  alone is handed to the function four times.
\<close>

lemma stream_records_processed_or_dropped:
  "(case feedEntrySync (PhomoStage stageName) ok records of
      None \<Rightarrow> False
    | Some out \<Rightarrow>
        succeeded out = filter ok records
        \<and> sentToDestination out = []
        \<and> dropped out = filter (\<lambda>r. \<not> ok r) records)
   \<and> (\<not> ok r \<longrightarrow>
        feedEntrySync (PhomoStage stageName) ok [r]
          = Some \<lparr> succeeded = [], sentToDestination = [], dropped = [r], invocations = 4 \<rparr>)"
proof -
  let ?props = "\<lparr> startingPosition = TRIM_HORIZON, DynamoEventSourceProps.batchSize = 10,
                   bisectBatchOnError = True, retryAttempts = 3, onFailure = None \<rparr>"
  have one: "chunk 10 [r] = [ [r] ]"
    by (subst chunk.simps, subst chunk.simps) simp
  have "\<not> ok r \<Longrightarrow> processStream ?props ok [r]
          = \<lparr> succeeded = [], sentToDestination = [], dropped = [r], invocations = 4 \<rparr>"
    by (simp add: processStream_def one poison_record_alone both_def)
  then show ?thesis
    using processStream_bisecting [of ?props ok records] by (simp add: feedEntrySync_run)
qed

text \<open>
  C6.  The feed materializer isolates a failing record and retries it a bounded number
  of times, and then fails to send it to a dead-letter channel.  In stage \<open>dev\<close>, of the
  records 1, 0 and 2 with a function that fails on 0, the records 1 and 2 are processed
  and 0 is dropped after its retries, nothing being sent to a failure destination: the
  event source of the stream names none.  The photo-processing path of the same stage,
  given the same three as messages, puts 0 into its dead-letter queue.
\<close>

theorem failed_stream_record_not_dead_lettered:
  "feedEntrySync (PhomoStage ''dev'') ((<) 0) [1, 0, 2 :: nat]
     = Some \<lparr> succeeded = [1, 2], sentToDestination = [], dropped = [0], invocations = 8 \<rparr>
   \<and> photoProcessing (PhomoStage ''dev'') ((<) 0) 4 [1, 0, 2 :: nat]
       = Some \<lparr> visible = [], deleted = [1, 2], deadLettered = [0],
                delivered = [ [1], [0], [2], [0], [0] ] \<rparr>"
proof -
  have c: "chunk 10 [1, 0, 2 :: nat] = [ [1, 0, 2] ]"
    by (subst chunk.simps, subst chunk.simps) simp
  have stream: "feedEntrySync (PhomoStage ''dev'') ((<) 0) [1, 0, 2 :: nat]
     = Some \<lparr> succeeded = [1, 2], sentToDestination = [], dropped = [0], invocations = 8 \<rparr>"
    using c
    by (simp add: feedEntrySync_run processStream_def processBatch.simps invoked_def
          both_def exhausted_def)
  let ?q = "PhotoProcessingQueue ''dev''"
  let ?props = "\<lparr> SqsEventSourceProps.batchSize = 1, maxBatchingWindow = 0 \<rparr>"
  have run: "photoProcessing (PhomoStage ''dev'') ((<) 0) 4 [1, 0, 2 :: nat]
     = Some ((poll ?q ?props ((<) 0) ^^ 4) (enqueued [1, 0, 2]))"
    by (simp add: photoProcessing_def stack_defs function_defs grant_defs seconds_def)
  have dlq: "deadLetterQueue ?q = Some (DeadLetterQueue (PhotoProcessingDLQ ''dev'') 3)"
    by (simp add: PhotoProcessingQueue_def)
  have "(poll ?q ?props ((<) 0) ^^ 4) (enqueued [1, 0, 2 :: nat])
     = \<lparr> visible = [], deleted = [1, 2], deadLettered = [0],
         delivered = [ [1], [0], [2], [0], [0] ] \<rparr>"
    by (subst four_polls [OF dlq]) simp_all
  with run stream show ?thesis by simp
qed

subsection \<open>What an authenticated user may read\<close>

lemma wildcardMatch_star_empty: "wildcardMatch ps v \<Longrightarrow> wildcardMatch (CHR ''*'' # ps) v"
  by (cases v) simp_all

lemma wildcardMatch_star: "wildcardMatch ps v \<Longrightarrow> wildcardMatch (CHR ''*'' # ps) (u @ v)"
  by (induction u) (simp_all add: wildcardMatch_star_empty)

lemma wildcardMatch_same_prefix: "wildcardMatch ps v \<Longrightarrow> wildcardMatch (xs @ ps) (xs @ v)"
proof (induction xs)
  case Nil
  then show ?case by simp
next
  case (Cons x xs)
  show ?case
  proof (cases "x = CHR ''*''")
    case True
    have "wildcardMatch (CHR ''*'' # xs @ ps) (xs @ v)"
      using Cons wildcardMatch_star_empty by blast
    with True show ?thesis by simp
  next
    case False
    with Cons show ?thesis by simp
  qed
qed

lemma expand_no_variable: "CHR ''$'' \<notin> set xs \<Longrightarrow> expand 0 sub xs = xs"
  by (induction xs) (auto simp add: subVariable_def)

lemma all_objects_pattern:
  assumes "CHR ''$'' \<notin> set pre" "CHR ''$'' \<notin> set folder"
  shows "wildcardMatch (expand 0 sub (pre @ folder @ ''*/*''))
           (pre @ folder @ owner @ ''/'' @ file)"
proof -
  have "wildcardMatch ''*'' (file @ [])"
    by (rule wildcardMatch_star) simp
  then have "wildcardMatch ''/*'' (''/'' @ file)" by simp
  then have "wildcardMatch ''*/*'' (owner @ ''/'' @ file)"
    by (rule wildcardMatch_star)
  then have "wildcardMatch (pre @ folder @ ''*/*'') (pre @ folder @ owner @ ''/'' @ file)"
    by (intro wildcardMatch_same_prefix)
  moreover have "expand 0 sub (pre @ folder @ ''*/*'') = pre @ folder @ ''*/*''"
    using assms by (intro expand_no_variable) simp
  ultimately show ?thesis by simp
qed

lemma bucketArn_no_variable:
  "CHR ''$'' \<notin> set stageName \<Longrightarrow> CHR ''$'' \<notin> set (bucketArn (PhotoBucket stageName))"
  by (simp add: bucketArn_def PhotoBucket_def)

lemma configured_stages_have_no_variable: "list_all (\<lambda>s. CHR ''$'' \<notin> set s) stages"
  by (simp add: stages_def)

text \<open>
  The statements with the identity variable do depend on the caller: in stage \<open>dev\<close>
  the user \<open>bob\<close> may upload into his own folder and not into the folder of \<open>alice\<close>.
\<close>

lemma upload_to_own_folder_only:
  "allows (authenticatedRole (storageStack (PhomoStage ''dev'')))
     \<lparr> principal = ''bob'', action = ''s3:PutObject'',
       resource = ''arn:aws:s3:::phomov2-photos-dev/photos/bob/p1.jpg'',
       requestContext = [] \<rparr>
   \<and> \<not> allows (authenticatedRole (storageStack (PhomoStage ''dev'')))
     \<lparr> principal = ''bob'', action = ''s3:PutObject'',
       resource = ''arn:aws:s3:::phomov2-photos-dev/photos/alice/p1.jpg'',
       requestContext = [] \<rparr>"
  by (simp add: stack_defs allows_def applies_def AuthenticatedRole_def addToPolicy_def
        bucketArn_def PhotoBucket_def subVariable_def)

text \<open>
  C9.  In every stage whose name has no \<open>$\<close> in it, as is the case for the three
  configured stages, the role that the identity pool gives to authenticated users allows
  \<open>s3:GetObject\<close> to every caller on every object of the photo bucket under
  \<open>photos/*/*\<close> and under \<open>faces/*/*\<close>, whoever the owner of the folder is: the
  storage policy does not tell the recipients of a photo from other users.
\<close>

theorem authenticated_role_reads_all_photos_and_faces:
  assumes "CHR ''$'' \<notin> set stageName"
  shows "allows (authenticatedRole (storageStack (PhomoStage stageName)))
           \<lparr> principal = caller, action = ''s3:GetObject'',
             resource = bucketArn (photoBucket (storageStack (PhomoStage stageName)))
                          @ ''/photos/'' @ owner @ ''/'' @ file,
             requestContext = ctx \<rparr>
       \<and> allows (authenticatedRole (storageStack (PhomoStage stageName)))
           \<lparr> principal = caller, action = ''s3:GetObject'',
             resource = bucketArn (photoBucket (storageStack (PhomoStage stageName)))
                          @ ''/faces/'' @ owner @ ''/'' @ file,
             requestContext = ctx \<rparr>
       \<and> authenticated (identityPoolRoleAttachment (storageStack (PhomoStage stageName)))
           = authenticatedRole (storageStack (PhomoStage stageName))
       \<and> identityPoolId (identityPoolRoleAttachment (storageStack (PhomoStage stageName)))
           = identityPool (authStack (PhomoStage stageName))
       \<and> amr (assumedBy (authenticatedRole (storageStack (PhomoStage stageName))))
           = ''authenticated''"
proof -
  have n: "CHR ''$'' \<notin> set (bucketArn (PhotoBucket stageName))"
    using assms by (rule bucketArn_no_variable)
  have p: "wildcardMatch
             (expand 0 caller (bucketArn (PhotoBucket stageName) @ ''/photos/'' @ ''*/*''))
             (bucketArn (PhotoBucket stageName) @ ''/photos/'' @ owner @ ''/'' @ file)"
    using n by (intro all_objects_pattern) simp_all
  have f: "wildcardMatch
             (expand 0 caller (bucketArn (PhotoBucket stageName) @ ''/faces/'' @ ''*/*''))
             (bucketArn (PhotoBucket stageName) @ ''/faces/'' @ owner @ ''/'' @ file)"
    using n by (intro all_objects_pattern) simp_all
  show ?thesis
    using p f
    by (simp add: stack_defs allows_def applies_def AuthenticatedRole_def addToPolicy_def)
qed

theorem authenticated_role_reads_all_photos_and_faces_witness:
  "CHR ''$'' \<notin> set ''prod''
   \<and> allows (authenticatedRole (storageStack (PhomoStage ''prod'')))
       \<lparr> principal = ''bob'', action = ''s3:GetObject'',
         resource = ''arn:aws:s3:::phomov2-photos-prod/photos/alice/p1.jpg'',
         requestContext = [] \<rparr>"
  using authenticated_role_reads_all_photos_and_faces
          [of "''prod''" "''bob''" "''alice''" "''p1.jpg''" "[]"]
  by (simp add: stack_defs bucketArn_def PhotoBucket_def)

end
